theory Spec2Isabelle
  imports Complex_Main "HOL-Library.Char_ord" "HOL-Library.List_Lexorder"
    "HOL-Library.Product_Lexorder" "HOL-Library.Log_Nat" "HOL-Library.Multiset"
begin

section \<open>Numbers: IEEE binary64 values\<close>

text \<open>
  Every numeric cell of the benchmark table is a float64 (an int64 column is converted to
  float64 by the first division). A finite non-zero value is the rational it denotes;
  the other values are the two zeros, the two infinities and NaN. \<open>Num 0\<close> is +0.0.
\<close>

datatype float64 = Num rat | NegZero | PInf | NInf | NaN

datatype error = IndexError | AttributeError | ValueError | ZeroDivisionError

fun is_nan :: "float64 \<Rightarrow> bool" where
  "is_nan NaN = True"
| "is_nan _ = False"

fun is_inf :: "float64 \<Rightarrow> bool" where
  "is_inf PInf = True"
| "is_inf NInf = True"
| "is_inf _ = False"

fun is_zero :: "float64 \<Rightarrow> bool" where
  "is_zero (Num q) = (q = 0)"
| "is_zero NegZero = True"
| "is_zero _ = False"

fun is_neg :: "float64 \<Rightarrow> bool" where
  "is_neg (Num q) = (q < 0)"
| "is_neg NegZero = True"
| "is_neg NInf = True"
| "is_neg _ = False"

fun val :: "float64 \<Rightarrow> rat" where
  "val (Num q) = q"
| "val _ = 0"

definition signed_inf :: "bool \<Rightarrow> float64" where
  "signed_inf neg = (if neg then NInf else PInf)"

definition signed_zero :: "bool \<Rightarrow> float64" where
  "signed_zero neg = (if neg then NegZero else Num 0)"

subsection \<open>Rounding to the nearest binary64\<close>

definition pow2 :: "int \<Rightarrow> rat" where
  "pow2 e = (if 0 \<le> e then 2 ^ nat e else 1 / 2 ^ nat (- e))"

definition round_half_even :: "rat \<Rightarrow> int" where
  "round_half_even q =
     (let f = \<lfloor>q\<rfloor>; r = q - of_int f
      in if r < 1 / 2 then f else if 1 / 2 < r then f + 1
         else if even f then f else f + 1)"

text \<open>\<open>ilog2 q\<close> is the exponent \<open>e\<close> with \<open>2^e \<le> q < 2^(e+1)\<close>, for \<open>0 < q\<close>.\<close>

definition ilog2 :: "rat \<Rightarrow> int" where
  "ilog2 q = (if 1 \<le> q then bitlen \<lfloor>q\<rfloor> - 1 else - bitlen (\<lceil>1 / q\<rceil> - 1))"

text \<open>
  Round-to-nearest, ties-to-even, on a 53-bit significand: the unit in the last place of
  \<open>q\<close> is \<open>2^(e - 52)\<close>, with \<open>e\<close> clamped at the subnormal exponent -1022; a
  result of magnitude \<open>2^1024\<close> or more overflows to an infinity, a result that rounds to
  nothing is a signed zero.
\<close>

definition round64 :: "rat \<Rightarrow> float64" where
  "round64 q =
     (if q = 0 then Num 0
      else let e = max (ilog2 \<bar>q\<bar>) (- 1022);
               u = pow2 (e - 52);
               r = of_int (round_half_even (q / u)) * u
           in if pow2 1024 \<le> \<bar>r\<bar> then signed_inf (q < 0)
              else if r = 0 then signed_zero (q < 0)
              else Num r)"

subsection \<open>Arithmetic and comparison\<close>

text \<open>
  \<open>np_div\<close> is the division of numpy scalars and arrays: a zero divisor gives an infinity
  or NaN (with a RuntimeWarning), never an exception.
\<close>

definition np_div :: "float64 \<Rightarrow> float64 \<Rightarrow> float64" where
  "np_div x y =
     (if is_nan x \<or> is_nan y then NaN
      else if is_inf x then (if is_inf y then NaN else signed_inf (is_neg x \<noteq> is_neg y))
      else if is_inf y then signed_zero (is_neg x \<noteq> is_neg y)
      else if is_zero y then (if is_zero x then NaN else signed_inf (is_neg x \<noteq> is_neg y))
      else if is_zero x then signed_zero (is_neg x \<noteq> is_neg y)
      else (case round64 (val x / val y) of
              Num r \<Rightarrow> if r = 0 then signed_zero (is_neg x \<noteq> is_neg y) else Num r
            | z \<Rightarrow> z))"

text \<open>
  \<open>py_div\<close> is the division of Python floats: a zero divisor raises ZeroDivisionError.
\<close>

definition py_div :: "float64 \<Rightarrow> float64 \<Rightarrow> error + float64" where
  "py_div x y = (if is_zero y then Inl ZeroDivisionError else Inr (np_div x y))"

definition np_add :: "float64 \<Rightarrow> float64 \<Rightarrow> float64" where
  "np_add x y =
     (if is_nan x \<or> is_nan y then NaN
      else if is_inf x then (if is_inf y \<and> x \<noteq> y then NaN else x)
      else if is_inf y then y
      else if is_zero x \<and> is_zero y then signed_zero (is_neg x \<and> is_neg y)
      else round64 (val x + val y))"

text \<open>
  The order of the non-NaN values, as a key into a linear order: -inf, the finite values
  (both zeros equal), +inf. Every comparison with NaN is false; its key is the largest,
  which is where a sort of a column puts the missing values (\<open>na_position='last'\<close>).
\<close>

fun fkey :: "float64 \<Rightarrow> int \<times> rat" where
  "fkey NInf = (- 1, 0)"
| "fkey PInf = (1, 0)"
| "fkey NaN = (2, 0)"
| "fkey x = (0, val x)"

definition flt :: "float64 \<Rightarrow> float64 \<Rightarrow> bool" where
  "flt x y = (\<not> is_nan x \<and> \<not> is_nan y \<and> fkey x < fkey y)"

definition feq :: "float64 \<Rightarrow> float64 \<Rightarrow> bool" where
  "feq x y = (\<not> is_nan x \<and> \<not> is_nan y \<and> fkey x = fkey y)"

subsection \<open>Fixed-point formatting\<close>

definition digit :: "nat \<Rightarrow> char" where
  "digit n = ''0123456789'' ! n"

fun str_nat :: "nat \<Rightarrow> string" where
  "str_nat n = (if n < 10 then [digit n] else str_nat (n div 10) @ [digit (n mod 10)])"

declare str_nat.simps [simp del]

definition zfill :: "nat \<Rightarrow> string \<Rightarrow> string" where
  "zfill d s = replicate (d - length s) CHR ''0'' @ s"

text \<open>
  \<open>format_f d x\<close> is Python's \<open>f"{x:.df}"\<close> for \<open>0 < d\<close>: the exact value of the
  float, rounded half-even to \<open>d\<close> decimals; the sign is kept when the digits are all zero.
\<close>

definition fixed :: "nat \<Rightarrow> rat \<Rightarrow> string" where
  "fixed d q =
     (let n = nat (round_half_even (q * 10 ^ d))
      in str_nat (n div 10 ^ d) @ ''.'' @ zfill d (str_nat (n mod 10 ^ d)))"

fun format_f :: "nat \<Rightarrow> float64 \<Rightarrow> string" where
  "format_f d NaN = ''nan''"
| "format_f d PInf = ''inf''"
| "format_f d NInf = ''-inf''"
| "format_f d NegZero = ''-'' @ fixed d 0"
| "format_f d (Num q) = (if q < 0 then ''-'' else []) @ fixed d \<bar>q\<bar>"

section \<open>The benchmark table\<close>

text \<open>
  One row of \<open>benchmark_results.csv\<close>. The headerless file read by
  \<open>generate_charts.py\<close> has the first three columns only; an empty \<open>log\<close> cell is
  \<open>None\<close> (pandas reads it as NaN).
\<close>

record raw_row =
  tool :: string
  log_field :: "string option"
  time_seconds :: float64

record measurement = raw_row +
  memory_mb :: float64

record nrow = measurement +
  size_name :: string
  size_numeric :: float64

subsection \<open>Library operations on columns and frames\<close>

text \<open>\<open>str.split(sep)\<close> on a one-character separator: always at least one part.\<close>

fun split_on :: "char \<Rightarrow> string \<Rightarrow> string list" where
  "split_on c [] = [[]]"
| "split_on c (x # xs) =
     (if x = c then [] # split_on c xs
      else (case split_on c xs of [] \<Rightarrow> [[x]] | p # ps \<Rightarrow> (x # p) # ps))"

definition py_index :: "'a list \<Rightarrow> nat \<Rightarrow> error + 'a" where
  "py_index xs i = (if i < length xs then Inr (xs ! i) else Inl IndexError)"

text \<open>\<open>Series.apply(f)\<close>: the first row on which \<open>f\<close> raises aborts the whole call.\<close>

fun apply_rows :: "('a \<Rightarrow> error + 'b) \<Rightarrow> 'a list \<Rightarrow> error + 'b list" where
  "apply_rows f [] = Inr []"
| "apply_rows f (x # xs) =
     (case f x of
        Inl e \<Rightarrow> Inl e
      | Inr y \<Rightarrow> (case apply_rows f xs of Inl e \<Rightarrow> Inl e | Inr ys \<Rightarrow> Inr (y # ys)))"

text \<open>\<open>Series.unique()\<close>: the distinct values in order of first appearance.\<close>

fun unique_from :: "'a list \<Rightarrow> 'a list \<Rightarrow> 'a list" where
  "unique_from seen [] = []"
| "unique_from seen (x # xs) =
     (if x \<in> set seen then unique_from seen xs else x # unique_from (x # seen) xs)"

definition unique :: "'a list \<Rightarrow> 'a list" where
  "unique xs = unique_from [] xs"

text \<open>
  \<open>DataFrame.sort_values(col)\<close> on a float64 column: ascending, missing values last, rows
  with equal keys in their input order (the order numpy's sort leaves on the short
  columns of this table, and the order of the missing values whatever the sort).
\<close>

definition sort_values :: "('r \<Rightarrow> float64) \<Rightarrow> 'r list \<Rightarrow> 'r list" where
  "sort_values col df = sort_key (\<lambda>r. fkey (col r)) df"

subsection \<open>Record Loader (\<open>load_data\<close>)\<close>

definition size_mapping :: "(string \<times> int) list" where
  "size_mapping = [(''10k'', 10000), (''100k'', 100000), (''1m'', 1000000)]"

definition size_order :: "string list" where
  "size_order = [''10k'', ''100k'', ''1m'']"

text \<open>\<open>x.split('_')[1].split('.')[0]\<close>; a NaN cell has no \<open>split\<close>.\<close>

definition size_token :: "string option \<Rightarrow> error + string" where
  "size_token x =
     (case x of
        None \<Rightarrow> Inl AttributeError
      | Some s \<Rightarrow>
          (case py_index (split_on CHR ''_'' s) 1 of
             Inl e \<Rightarrow> Inl e
           | Inr seg \<Rightarrow> py_index (split_on CHR ''.'' seg) 0))"

text \<open>\<open>Series.map(dict)\<close>: a key that is not in the dictionary maps to NaN.\<close>

definition map_size :: "string \<Rightarrow> float64" where
  "map_size s = (case map_of size_mapping s of None \<Rightarrow> NaN | Some n \<Rightarrow> Num (of_int n))"

definition with_size :: "measurement \<Rightarrow> string \<Rightarrow> nrow" where
  "with_size m s =
     \<lparr>tool = tool m, log_field = log_field m, time_seconds = time_seconds m,
      memory_mb = memory_mb m, size_name = s, size_numeric = map_size s\<rparr>"

definition load_data :: "measurement list \<Rightarrow> error + nrow list" where
  "load_data rows =
     (case apply_rows (\<lambda>m. size_token (log_field m)) rows of
        Inl e \<Rightarrow> Inl e
      | Inr names \<Rightarrow>
          Inr (sort_key (\<lambda>r. (tool r, fkey (size_numeric r)))
                 (map (\<lambda>(m, s). with_size m s) (zip rows names))))"


section \<open>Scaling Analyzer (\<open>generate_scaling_analysis\<close>)\<close>

record scaling_entry =
  Tool :: string
  Size_Change :: string
  Time_Increase :: string
  Scaling_Factor :: string

text \<open>
  The rows \<open>prev = tool_data.iloc[i-1]\<close> and \<open>curr = tool_data.iloc[i]\<close> hold numpy
  scalars, so the three quotients are numpy divisions.
\<close>

definition size_ratio :: "nrow \<Rightarrow> nrow \<Rightarrow> float64" where
  "size_ratio prev cur = np_div (size_numeric cur) (size_numeric prev)"

definition time_ratio :: "nrow \<Rightarrow> nrow \<Rightarrow> float64" where
  "time_ratio prev cur = np_div (time_seconds cur) (time_seconds prev)"

definition scaling_factor :: "nrow \<Rightarrow> nrow \<Rightarrow> float64" where
  "scaling_factor prev cur = np_div (time_ratio prev cur) (size_ratio prev cur)"

text \<open>The arrow of the \<open>Size Change\<close> column is U+2192, three bytes in UTF-8.\<close>

definition arrow :: string where
  "arrow = [CHR 0xE2, CHR 0x86, CHR 0x92]"

definition scaling_row :: "string \<Rightarrow> nrow \<Rightarrow> nrow \<Rightarrow> scaling_entry" where
  "scaling_row t prev cur =
     \<lparr>Tool = t,
      Size_Change = size_name prev @ '' '' @ arrow @ '' '' @ size_name cur,
      Time_Increase = format_f 2 (time_ratio prev cur) @ ''x'',
      Scaling_Factor = format_f 3 (scaling_factor prev cur)\<rparr>"

definition tool_scaling :: "string \<Rightarrow> nrow list \<Rightarrow> scaling_entry list" where
  "tool_scaling t df =
     (let tool_data = sort_values size_numeric (filter (\<lambda>r. tool r = t) df)
      in if 2 \<le> length tool_data
         then map (\<lambda>i. scaling_row t (tool_data ! (i - 1)) (tool_data ! i))
                [1..<length tool_data]
         else [])"

definition generate_scaling_analysis :: "nrow list \<Rightarrow> scaling_entry list" where
  "generate_scaling_analysis df =
     concat (map (\<lambda>t. tool_scaling t df) (unique (map tool df)))"


section \<open>Sample tables\<close>

definition w_df :: "nrow list" where
  "w_df = [\<lparr>tool = ''grep'', log_field = Some ''bench_10k.json'', time_seconds = Num 2,
            memory_mb = Num 80, size_name = ''10k'', size_numeric = Num 10000\<rparr>,
           \<lparr>tool = ''timber'', log_field = Some ''bench_100k.json'', time_seconds = Num 9,
            memory_mb = Num 90, size_name = ''100k'', size_numeric = Num 100000\<rparr>,
           \<lparr>tool = ''timber'', log_field = Some ''bench_10k.json'', time_seconds = Num 1,
            memory_mb = Num 50, size_name = ''10k'', size_numeric = Num 10000\<rparr>]"

definition w_prev :: nrow where
  "w_prev = \<lparr>tool = ''timber'', log_field = Some ''bench_10k.json'',
            time_seconds = Num (3 / 2), memory_mb = Num 50,
            size_name = ''10k'', size_numeric = Num 10000\<rparr>"

definition w_cur :: nrow where
  "w_cur = \<lparr>tool = ''timber'', log_field = Some ''bench_20k.json'',
           time_seconds = Num 3, memory_mb = Num 50,
           size_name = ''20k'', size_numeric = Num 20000\<rparr>"

definition c4_rows :: "measurement list" where
  "c4_rows = [\<lparr>tool = ''timber'', log_field = Some ''bench_5k.json'', time_seconds = Num 1,
               memory_mb = Num 50\<rparr>]"


definition g10 :: nrow where
  "g10 = \<lparr>tool = ''grep'', log_field = Some ''bench_10k.json'', time_seconds = Num 2,
          memory_mb = Num 80, size_name = ''10k'', size_numeric = Num 10000\<rparr>"

definition g100 :: nrow where
  "g100 = \<lparr>tool = ''grep'', log_field = Some ''bench_100k.json'', time_seconds = Num 30,
           memory_mb = Num 85, size_name = ''100k'', size_numeric = Num 100000\<rparr>"

definition t10_zero :: nrow where
  "t10_zero = \<lparr>tool = ''timber'', log_field = Some ''bench_10k.json'', time_seconds = Num 0,
               memory_mb = Num 50, size_name = ''10k'', size_numeric = Num 10000\<rparr>"

definition t100 :: nrow where
  "t100 = \<lparr>tool = ''timber'', log_field = Some ''bench_100k.json'', time_seconds = Num 9,
           memory_mb = Num 90, size_name = ''100k'', size_numeric = Num 100000\<rparr>"

definition c5_df :: "nrow list" where
  "c5_df = [g10, g100, t10_zero, t100]"

definition m5 :: measurement where
  "m5 = \<lparr>tool = ''timber'', log_field = Some ''bench_5k.json'', time_seconds = Num 1,
         memory_mb = Num 50\<rparr>"

definition m7 :: measurement where
  "m7 = \<lparr>tool = ''timber'', log_field = Some ''bench_7k.json'', time_seconds = Num 2,
         memory_mb = Num 60\<rparr>"

definition n5 :: nrow where
  "n5 = \<lparr>tool = ''timber'', log_field = Some ''bench_5k.json'', time_seconds = Num 1,
         memory_mb = Num 50, size_name = ''5k'', size_numeric = NaN\<rparr>"

definition n7 :: nrow where
  "n7 = \<lparr>tool = ''timber'', log_field = Some ''bench_7k.json'', time_seconds = Num 2,
         memory_mb = Num 60, size_name = ''7k'', size_numeric = NaN\<rparr>"

section \<open>Pivot Aggregator (\<open>DataFrame.pivot\<close>, \<open>reindex\<close>)\<close>

text \<open>
  A pivot table: the row labels, the column labels and the cells, row by row. A cell
  without a measurement is NaN.
\<close>

record pivot_table =
  index :: "string list"
  columns :: "string list"
  cells :: "float64 list list"

text \<open>
  \<open>df.pivot(index, columns, values)\<close>: it raises ValueError (\<open>Index contains duplicate
  entries, cannot reshape\<close>) when two rows share the pair of labels; otherwise the labels of
  both axes are the distinct values, sorted.
\<close>

definition pivot ::
  "('r \<Rightarrow> string) \<Rightarrow> ('r \<Rightarrow> string) \<Rightarrow> ('r \<Rightarrow> float64) \<Rightarrow> 'r list \<Rightarrow> error + pivot_table"
where
  "pivot idx col v df =
     (if \<not> distinct (map (\<lambda>r. (idx r, col r)) df) then Inl ValueError
      else let rows = sort (unique (map idx df)); cols = sort (unique (map col df))
           in Inr \<lparr>index = rows, columns = cols,
                   cells = map (\<lambda>i. map (\<lambda>c. case find (\<lambda>r. idx r = i \<and> col r = c) df of
                                                None \<Rightarrow> NaN
                                              | Some r \<Rightarrow> v r) cols) rows\<rparr>)"

text \<open>
  \<open>reindex(labels)\<close> on a table with distinct row labels: the rows of the new table are the
  given labels in the given order; a label that the table does not have gets a row of NaN,
  and a row of the table whose label is not asked for is dropped.
\<close>

definition reindex :: "string list \<Rightarrow> pivot_table \<Rightarrow> pivot_table" where
  "reindex labels p =
     \<lparr>index = labels, columns = columns p,
      cells = map (\<lambda>s. case map_of (zip (index p) (cells p)) s of
                          None \<Rightarrow> replicate (length (columns p)) NaN
                        | Some row \<Rightarrow> row) labels\<rparr>"

text \<open>
  \<open>generate_time_comparison\<close> and \<open>generate_memory_comparison\<close> of
  \<open>analyze_results.py\<close>, up to the table that is handed to the plot.
\<close>

definition generate_time_comparison :: "nrow list \<Rightarrow> error + pivot_table" where
  "generate_time_comparison df =
     (case pivot size_name tool time_seconds df of
        Inl e \<Rightarrow> Inl e
      | Inr pivot_df \<Rightarrow> Inr (reindex size_order pivot_df))"

definition generate_memory_comparison :: "nrow list \<Rightarrow> error + pivot_table" where
  "generate_memory_comparison df =
     (case pivot size_name tool memory_mb df of
        Inl e \<Rightarrow> Inl e
      | Inr pivot_df \<Rightarrow> Inr (reindex size_order pivot_df))"

section \<open>The headerless loader and its pivot (\<open>generate_charts.py\<close>)\<close>

text \<open>
  The frame that \<open>pd.read_csv(RESULTS_FILE, header=None, names=['tool', 'log',
  'time_seconds'], on_bad_lines='skip')\<close> returns is the input of this part, one
  \<open>raw_row\<close> per row of the frame. In a file whose first line has three fields, a later
  line of more than three fields is a bad line and gives no row, and a line of fewer fields
  gives a row whose missing cells are NaN: \<open>log_field\<close> is \<open>None\<close>, \<open>time_seconds\<close>
  is \<open>NaN\<close>.
\<close>

text \<open>\<open>extract_size\<close>: IndexError and AttributeError are caught, and the result is None.\<close>

definition extract_size :: "string option \<Rightarrow> error + string option" where
  "extract_size l =
     (case size_token l of
        Inr s \<Rightarrow> Inr (Some s)
      | Inl e \<Rightarrow> if e = IndexError \<or> e = AttributeError then Inr None else Inl e)"

record chart_row = raw_row +
  size_tok :: string

text \<open>\<open>df.dropna(subset=['size'])\<close>.\<close>

fun dropna_size :: "(raw_row \<times> string option) list \<Rightarrow> chart_row list" where
  "dropna_size [] = []"
| "dropna_size ((r, None) # rs) = dropna_size rs"
| "dropna_size ((r, Some s) # rs) =
     \<lparr>tool = tool r, log_field = log_field r, time_seconds = time_seconds r, size_tok = s\<rparr>
       # dropna_size rs"

text \<open>
  \<open>df['size'] = df['log'].apply(extract_size)\<close> and \<open>df.dropna(subset=['size'])\<close>, on
  the frame that \<open>read_csv\<close> has returned.
\<close>

definition add_size_column :: "raw_row list \<Rightarrow> error + chart_row list" where
  "add_size_column df =
     (case apply_rows (\<lambda>r. extract_size (log_field r)) df of
        Inl e \<Rightarrow> Inl e
      | Inr sizes \<Rightarrow> Inr (dropna_size (zip df sizes)))"

definition time_df :: "chart_row list \<Rightarrow> error + pivot_table" where
  "time_df df =
     (case pivot size_tok tool time_seconds df of
        Inl e \<Rightarrow> Inl e
      | Inr p \<Rightarrow> Inr (reindex (filter (\<lambda>s. s \<in> set (index p)) size_order) p))"

text \<open>The cell of a pivot table at a row label and a column label, when both exist.\<close>

definition cell :: "pivot_table \<Rightarrow> string \<Rightarrow> string \<Rightarrow> float64 option" where
  "cell p s t =
     (case map_of (zip (index p) (cells p)) s of
        None \<Rightarrow> None
      | Some row \<Rightarrow> map_of (zip (columns p) row) t)"

definition dup_df :: "nrow list" where
  "dup_df = [g10, t10_zero, g10]"

definition w_chart :: "chart_row list" where
  "w_chart = [\<lparr>tool = ''grep'', log_field = Some ''bench_10k.json'', time_seconds = Num 2,
               size_tok = ''10k''\<rparr>,
              \<lparr>tool = ''timber'', log_field = Some ''bench_100k.json'', time_seconds = Num 9,
               size_tok = ''100k''\<rparr>,
              \<lparr>tool = ''timber'', log_field = Some ''bench_10k.json'', time_seconds = Num 1,
               size_tok = ''10k''\<rparr>]"


text \<open>
  The frame read from the two lines \<open>timber,bench_10k.json,1.5\<close> and
  \<open>grep,bench_10k.json\<close>: the second line has no third field, and its time is NaN.
\<close>

definition short_line_df :: "raw_row list" where
  "short_line_df =
     [\<lparr>tool = ''timber'', log_field = Some ''bench_10k.json'', time_seconds = Num (3 / 2)\<rparr>,
      \<lparr>tool = ''grep'', log_field = Some ''bench_10k.json'', time_seconds = NaN\<rparr>]"


section \<open>Ranking Engine (\<open>generate_rankings\<close>)\<close>

text \<open>
  \<open>Series.rank()\<close> with its defaults (\<open>method='average'\<close>, \<open>na_option='keep'\<close>,
  ascending): the values that are not NaN are sorted, a value gets the mean of the 1-based
  positions that its equals occupy in the sorted column (the sum of the positions divided
  by their number, a multiple of one half and so exact in float64), and NaN gets NaN.
\<close>

definition positions :: "'a list \<Rightarrow> 'a \<Rightarrow> nat list" where
  "positions s k = map Suc (filter (\<lambda>i. s ! i = k) [0..<length s])"

definition rank :: "float64 list \<Rightarrow> float64 list" where
  "rank xs =
     (let s = sort (map fkey (filter (\<lambda>x. \<not> is_nan x) xs))
      in map (\<lambda>x. if is_nan x then NaN
                   else let ps = positions s (fkey x)
                        in Num (of_nat (sum_list ps) / of_nat (length ps))) xs)"

record ranked_row = nrow +
  time_rank :: float64
  memory_rank :: float64
  combined_score :: float64

record rank_entry =
  Rank_Tool :: string
  Time_s :: string
  Memory_MB :: string
  Time_Rank :: float64
  Memory_Rank :: float64
  Combined_Score :: float64

text \<open>
  The three columns added to the rows of one size:
  \<open>combined_score = (time_rank + memory_rank) / 2\<close>, on float64 columns.
\<close>

definition add_ranks :: "nrow list \<Rightarrow> ranked_row list" where
  "add_ranks size_df =
     map (\<lambda>(r, a, b).
            \<lparr>tool = tool r, log_field = log_field r, time_seconds = time_seconds r,
             memory_mb = memory_mb r, size_name = size_name r, size_numeric = size_numeric r,
             time_rank = a, memory_rank = b,
             combined_score = np_div (np_add a b) (Num 2)\<rparr>)
       (zip size_df (zip (rank (map time_seconds size_df)) (rank (map memory_mb size_df))))"

definition result_row :: "ranked_row \<Rightarrow> rank_entry" where
  "result_row r =
     \<lparr>Rank_Tool = tool r,
      Time_s = format_f 3 (time_seconds r),
      Memory_MB = format_f 2 (memory_mb r),
      Time_Rank = time_rank r,
      Memory_Rank = memory_rank r,
      Combined_Score = combined_score r\<rparr>"

definition rank_size :: "nrow list \<Rightarrow> rank_entry list" where
  "rank_size size_df = map result_row (sort_values combined_score (add_ranks size_df))"


text \<open>
  The rank of the specification: with \<open>L\<close> values below \<open>x\<close> and \<open>k\<close> values equal to it,
  the mean of the \<open>k\<close> consecutive positions \<open>L + 1, \<dots>, L + k\<close>.
\<close>

definition tie_averaged_rank :: "float64 list \<Rightarrow> float64 \<Rightarrow> float64" where
  "tie_averaged_rank col x =
     (if is_nan x then NaN
      else let L = length (filter (\<lambda>y. flt y x) col);
               k = length (filter (\<lambda>y. feq y x) col)
           in Num (of_nat (sum_list [L + 1..<L + k + 1]) / of_nat k))"


definition grep10 :: nrow where
  "grep10 = \<lparr>tool = ''grep'', log_field = Some ''bench_10k.json'', time_seconds = Num 2,
             memory_mb = Num 50, size_name = ''10k'', size_numeric = Num 10000\<rparr>"

definition awk10 :: nrow where
  "awk10 = \<lparr>tool = ''awk'', log_field = Some ''bench_10k.json'', time_seconds = Num 2,
            memory_mb = Num 70, size_name = ''10k'', size_numeric = Num 10000\<rparr>"

definition sed10 :: nrow where
  "sed10 = \<lparr>tool = ''sed'', log_field = Some ''bench_10k.json'', time_seconds = Num 2,
            memory_mb = Num 60, size_name = ''10k'', size_numeric = Num 10000\<rparr>"


section \<open>Comparative Ratio Engine (\<open>generate_comparative_analysis\<close>)\<close>

record comparative_entry =
  File_Size :: string
  Compared_Tool :: string
  Time_Ratio :: float64
  Memory_Ratio :: float64
  Timber_Time :: float64
  Tool_Time :: float64
  Timber_Memory :: float64
  Tool_Memory :: float64

record comparative_row = comparative_entry +
  Time_Comparison :: string
  Memory_Comparison :: string

text \<open>
  The entries of one size. The baseline is the first timber row of the size; a size without
  one is skipped. \<open>timber_time\<close> and \<open>timber_memory\<close> are elements of a numpy array
  (\<open>.values[0]\<close>), so the two ratios are numpy divisions and raise nothing.
\<close>

definition size_comparison :: "string \<Rightarrow> nrow list \<Rightarrow> comparative_entry list" where
  "size_comparison sz df =
     (let size_df = filter (\<lambda>r. size_name r = sz) df;
          timber = filter (\<lambda>r. tool r = ''timber'') size_df
      in if length timber = 0 then []
         else let timber_time = time_seconds (timber ! 0);
                  timber_memory = memory_mb (timber ! 0)
              in map (\<lambda>row.
                       \<lparr>File_Size = sz, Compared_Tool = tool row,
                        Time_Ratio = np_div timber_time (time_seconds row),
                        Memory_Ratio = np_div timber_memory (memory_mb row),
                        Timber_Time = timber_time, Tool_Time = time_seconds row,
                        Timber_Memory = timber_memory, Tool_Memory = memory_mb row\<rparr>)
                   (filter (\<lambda>row. tool row \<noteq> ''timber'') size_df))"

definition comparative_data :: "nrow list \<Rightarrow> comparative_entry list" where
  "comparative_data df =
     concat (map (\<lambda>sz. size_comparison sz df) (unique (map size_name df)))"

text \<open>
  The two phrases. \<open>comparative_df.apply(\<dots>, axis=1)\<close> hands the lambda a row of a frame
  with text and number columns, an object row whose numbers are Python floats: the
  comparison \<open>x < 1\<close> is false on NaN, and \<open>1/x\<close> raises ZeroDivisionError on a zero.
\<close>

definition time_comparison :: "float64 \<Rightarrow> error + string" where
  "time_comparison x =
     (if flt x (Num 1)
      then (case py_div (Num 1) x of
              Inl e \<Rightarrow> Inl e
            | Inr q \<Rightarrow> Inr (''Timber is '' @ format_f 2 q @ ''x slower''))
      else Inr (''Timber is '' @ format_f 2 x @ ''x faster''))"

definition memory_comparison :: "float64 \<Rightarrow> error + string" where
  "memory_comparison x =
     (if flt x (Num 1)
      then (case py_div (Num 1) x of
              Inl e \<Rightarrow> Inl e
            | Inr q \<Rightarrow> Inr (''Timber uses '' @ format_f 2 q @ ''x more memory''))
      else Inr (''Timber uses '' @ format_f 2 x @ ''x less memory''))"

text \<open>
  \<open>generate_comparative_analysis\<close>, up to the frame that is saved as
  \<open>comparative_analysis.csv\<close>; without entries nothing is saved.
\<close>

definition generate_comparative_analysis :: "nrow list \<Rightarrow> error + comparative_row list" where
  "generate_comparative_analysis df =
     (let data = comparative_data df
      in if data = [] then Inr []
         else (case apply_rows (\<lambda>e. time_comparison (Time_Ratio e)) data of
                 Inl e \<Rightarrow> Inl e
               | Inr tc \<Rightarrow>
                   (case apply_rows (\<lambda>e. memory_comparison (Memory_Ratio e)) data of
                      Inl e \<Rightarrow> Inl e
                    | Inr mc \<Rightarrow>
                        Inr (map (\<lambda>(e, t, m).
                                    \<lparr>File_Size = File_Size e, Compared_Tool = Compared_Tool e,
                                     Time_Ratio = Time_Ratio e, Memory_Ratio = Memory_Ratio e,
                                     Timber_Time = Timber_Time e, Tool_Time = Tool_Time e,
                                     Timber_Memory = Timber_Memory e,
                                     Tool_Memory = Tool_Memory e,
                                     Time_Comparison = t, Memory_Comparison = m\<rparr>)
                               (zip data (zip tc mc))))))"


section \<open>Properties\<close>

subsection \<open>Library facts\<close>

lemma round64_1: "round64 1 = Num 1" by code_simp
lemma round64_2: "round64 2 = Num 2" by code_simp

lemma np_div_double: "a \<noteq> 0 \<Longrightarrow> np_div (Num (2 * a)) (Num a) = Num 2"
  by (simp add: np_div_def round64_2)

lemma np_div_same: "a \<noteq> 0 \<Longrightarrow> np_div (Num a) (Num a) = Num 1"
  by (simp add: np_div_def round64_1)

lemma map_adjacent:
  "map (\<lambda>i. f (xs ! (i - 1)) (xs ! i)) [1..<length xs] = map (\<lambda>(p, c). f p c) (zip xs (tl xs))"
proof (rule nth_equalityI)
  show "length (map (\<lambda>i. f (xs ! (i - 1)) (xs ! i)) [1..<length xs]) = length (map (\<lambda>(p, c). f p c) (zip xs (tl xs)))"
    by simp
next
  fix i assume "i < length (map (\<lambda>i. f (xs ! (i - 1)) (xs ! i)) [1..<length xs])"
  then have i: "i < length xs - 1" by simp
  then show "map (\<lambda>i. f (xs ! (i - 1)) (xs ! i)) [1..<length xs] ! i = map (\<lambda>(p, c). f p c) (zip xs (tl xs)) ! i"
    by (simp add: nth_tl)
qed

lemma tool_scaling_zip:
  "tool_scaling t df =
     map (\<lambda>(prev, cur). scaling_row t prev cur)
       (zip (sort_values size_numeric (filter (\<lambda>r. tool r = t) df))
            (tl (sort_values size_numeric (filter (\<lambda>r. tool r = t) df))))"
proof -
  define td where "td = sort_values size_numeric (filter (\<lambda>r. tool r = t) df)"
  have "\<not> 2 \<le> length td \<Longrightarrow> zip td (tl td) = []"
    by (cases td) (auto simp: Suc_le_eq)
  then show ?thesis
    unfolding tool_scaling_def Let_def td_def[symmetric]
    by (simp add: map_adjacent [simplified])
qed

lemma set_unique_from: "set (unique_from seen xs) = set xs - set seen"
  by (induction xs arbitrary: seen) auto

lemma distinct_unique_from: "distinct (unique_from seen xs)"
  by (induction xs arbitrary: seen) (auto simp: set_unique_from)

lemma set_unique: "set (unique xs) = set xs"
  by (simp add: unique_def set_unique_from)

lemma distinct_unique: "distinct (unique xs)"
  by (simp add: unique_def distinct_unique_from)

lemma sorted_sort_values: "sorted (map (\<lambda>r. fkey (col r)) (sort_values col df))"
  by (simp add: sort_values_def)

lemma mset_sort_values: "mset (sort_values col df) = mset df"
  by (simp add: sort_values_def)

lemma length_sort_values: "length (sort_values col df) = length df"
  by (simp add: sort_values_def)

lemma format_one: "format_f 3 (Num 1) = ''1.000''"
  by code_simp

subsection \<open>Scaling Analyzer\<close>

text \<open>
  C1. Every tool of the table is visited once. For a tool \<open>t\<close>, the analyzer sorts the
  tool's rows by \<open>size_numeric\<close> ascending and emits exactly one entry per adjacent pair
  \<open>(prev, cur)\<close> of the sorted rows, built from
  \<open>size_ratio = cur.size_numeric / prev.size_numeric\<close>,
  \<open>time_ratio = cur.time_seconds / prev.time_seconds\<close> and
  \<open>scaling_factor = time_ratio / size_ratio\<close>; a tool with fewer than two rows yields no
  entry. When a finite non-zero time doubles as a finite non-zero size doubles, the scaling
  factor is exactly 1.0 (printed \<open>1.000\<close>).
\<close>

theorem scaling_entry_per_adjacent_pair:
  "set (unique (map tool df)) = set (map tool df) \<and> distinct (unique (map tool df)) \<and>
   generate_scaling_analysis df = concat (map (\<lambda>t. tool_scaling t df) (unique (map tool df))) \<and>
   (let tool_data = sort_values size_numeric (filter (\<lambda>r. tool r = t) df)
    in mset tool_data = mset (filter (\<lambda>r. tool r = t) df) \<and>
       sorted (map (\<lambda>r. fkey (size_numeric r)) tool_data) \<and>
       tool_scaling t df =
         map (\<lambda>(prev, cur).
                \<lparr>Tool = t,
                 Size_Change = size_name prev @ '' '' @ arrow @ '' '' @ size_name cur,
                 Time_Increase = format_f 2 (time_ratio prev cur) @ ''x'',
                 Scaling_Factor = format_f 3 (scaling_factor prev cur)\<rparr>)
           (zip tool_data (tl tool_data)) \<and>
       length (tool_scaling t df) = length tool_data - 1 \<and>
       (length tool_data < 2 \<longrightarrow> tool_scaling t df = [])) \<and>
   size_ratio prev cur = np_div (size_numeric cur) (size_numeric prev) \<and>
   time_ratio prev cur = np_div (time_seconds cur) (time_seconds prev) \<and>
   scaling_factor prev cur = np_div (time_ratio prev cur) (size_ratio prev cur) \<and>
   (a \<noteq> 0 \<and> s \<noteq> 0 \<and>
    time_seconds prev = Num a \<and> time_seconds cur = Num (2 * a) \<and>
    size_numeric prev = Num s \<and> size_numeric cur = Num (2 * s)
    \<longrightarrow> scaling_factor prev cur = Num 1 \<and> format_f 3 (scaling_factor prev cur) = ''1.000'')"
proof -
  define td where "td = sort_values size_numeric (filter (\<lambda>r. tool r = t) df)"
  have f1: "set (unique (map tool df)) = set (map tool df)"
    by (rule set_unique)
  have f2: "distinct (unique (map tool df))"
    by (rule distinct_unique)
  have f3: "generate_scaling_analysis df =
      concat (map (\<lambda>t. tool_scaling t df) (unique (map tool df)))"
    by (rule generate_scaling_analysis_def)
  have f4: "mset td = mset (filter (\<lambda>r. tool r = t) df)"
    by (simp add: td_def mset_sort_values)
  have f5: "sorted (map (\<lambda>r. fkey (size_numeric r)) td)"
    unfolding td_def by (rule sorted_sort_values)
  have f6: "tool_scaling t df =
      map (\<lambda>(prev, cur).
             \<lparr>Tool = t,
              Size_Change = size_name prev @ '' '' @ arrow @ '' '' @ size_name cur,
              Time_Increase = format_f 2 (time_ratio prev cur) @ ''x'',
              Scaling_Factor = format_f 3 (scaling_factor prev cur)\<rparr>)
        (zip td (tl td))"
    unfolding tool_scaling_zip td_def scaling_row_def by (rule refl)
  have f7: "length (tool_scaling t df) = length td - 1"
    unfolding f6 by simp
  have f8: "length td < 2 \<longrightarrow> tool_scaling t df = []"
    using f7 by auto
  have f9: "size_ratio prev cur = np_div (size_numeric cur) (size_numeric prev)"
    by (rule size_ratio_def)
  have f10: "time_ratio prev cur = np_div (time_seconds cur) (time_seconds prev)"
    by (rule time_ratio_def)
  have f11: "scaling_factor prev cur = np_div (time_ratio prev cur) (size_ratio prev cur)"
    by (rule scaling_factor_def)
  have f12: "a \<noteq> 0 \<and> s \<noteq> 0 \<and>
      time_seconds prev = Num a \<and> time_seconds cur = Num (2 * a) \<and>
      size_numeric prev = Num s \<and> size_numeric cur = Num (2 * s)
      \<longrightarrow> scaling_factor prev cur = Num 1 \<and> format_f 3 (scaling_factor prev cur) = ''1.000''"
  proof (intro impI, elim conjE)
    assume h: "a \<noteq> 0" "s \<noteq> 0" "time_seconds prev = Num a" "time_seconds cur = Num (2 * a)"
      "size_numeric prev = Num s" "size_numeric cur = Num (2 * s)"
    have sf: "scaling_factor prev cur = Num 1"
      using h by (simp add: scaling_factor_def time_ratio_def size_ratio_def
          np_div_double np_div_same)
    show "scaling_factor prev cur = Num 1 \<and> format_f 3 (scaling_factor prev cur) = ''1.000''"
      unfolding sf using format_one by (intro conjI refl)
  qed
  show ?thesis
    unfolding Let_def td_def [symmetric]
    by (intro conjI f1 f2 f3 f4 f5 f6 f7 f8 f9 f10 f11 f12)
qed

theorem scaling_entry_per_adjacent_pair_witness:
  "length (sort_values size_numeric (filter (\<lambda>r. tool r = ''grep'') w_df)) < 2 \<and>
   tool_scaling ''grep'' w_df = [] \<and>
   time_seconds w_prev = Num (3 / 2) \<and> time_seconds w_cur = Num (2 * (3 / 2)) \<and>
   size_numeric w_prev = Num 10000 \<and> size_numeric w_cur = Num (2 * 10000) \<and>
   scaling_factor w_prev w_cur = Num 1"
proof -
  have h1: "length (sort_values size_numeric (filter (\<lambda>r. tool r = ''grep'') w_df)) < 2"
    by (simp add: w_df_def length_sort_values)
  have h2: "(3 / 2 :: rat) \<noteq> 0 \<and> (10000 :: rat) \<noteq> 0 \<and>
      time_seconds w_prev = Num (3 / 2) \<and> time_seconds w_cur = Num (2 * (3 / 2)) \<and>
      size_numeric w_prev = Num 10000 \<and> size_numeric w_cur = Num (2 * 10000)"
    by (simp add: w_prev_def w_cur_def)
  from scaling_entry_per_adjacent_pair [of w_df "''grep''" w_prev w_cur "3 / 2" 10000]
  have "(length (sort_values size_numeric (filter (\<lambda>r. tool r = ''grep'') w_df)) < 2
          \<longrightarrow> tool_scaling ''grep'' w_df = []) \<and>
        ((3 / 2 :: rat) \<noteq> 0 \<and> (10000 :: rat) \<noteq> 0 \<and>
      time_seconds w_prev = Num (3 / 2) \<and> time_seconds w_cur = Num (2 * (3 / 2)) \<and>
      size_numeric w_prev = Num 10000 \<and> size_numeric w_cur = Num (2 * 10000)
         \<longrightarrow> scaling_factor w_prev w_cur = Num 1 \<and> format_f 3 (scaling_factor w_prev w_cur) = ''1.000'')"
    unfolding Let_def by blast
  with h1 h2 show ?thesis by blast
qed
subsection \<open>Record Loader\<close>

lemma apply_rows_all2:
  "\<forall>x\<in>set xs. \<exists>y. f x = Inr y \<Longrightarrow> \<exists>ys. apply_rows f xs = Inr ys \<and> list_all2 (\<lambda>x y. f x = Inr y) xs ys"
proof (induction xs)
  case Nil
  then show ?case by simp
next
  case (Cons x xs)
  then obtain y where y: "f x = Inr y" by auto
  from Cons obtain ys where ys: "apply_rows f xs = Inr ys" "list_all2 (\<lambda>x y. f x = Inr y) xs ys"
    by auto
  show ?case using y ys by simp
qed

lemma map_size_cases:
  "map_size s = (if s = ''10k'' then Num 10000 else if s = ''100k'' then Num 100000
                 else if s = ''1m'' then Num 1000000 else NaN)"
  by (simp add: map_size_def size_mapping_def)

text \<open>
  C4 as stated fails: a row whose size token \<open>5k\<close> is not in the lookup table is loaded
  without any error, with \<open>size_numeric\<close> missing.
\<close>

theorem load_data_unmapped_token_counterexample: "load_data c4_rows =
   Inr [\<lparr>tool = ''timber'', log_field = Some ''bench_5k.json'', time_seconds = Num 1,
               memory_mb = Num 50, size_name = ''5k'', size_numeric = NaN\<rparr>]"
  unfolding c4_rows_def by code_simp

text \<open>
  C4, amended. When every log identifier yields a size token, the load succeeds whether or
  not the tokens are in the lookup table: no row is dropped, every row is kept with its
  token as \<open>size_name\<close>, and \<open>size_numeric\<close> is the table's value for a token of the table
  and NaN (missing) for any other token, never another number.
\<close>

theorem load_data_keeps_unmapped_rows:
  assumes "\<forall>m\<in>set rows. \<exists>s. size_token (log_field m) = Inr s"
  shows "\<exists>df. load_data rows = Inr df \<and> length df = length rows \<and>
           (\<forall>m\<in>set rows. \<forall>s. size_token (log_field m) = Inr s \<longrightarrow> with_size m s \<in> set df) \<and>
           (\<forall>r\<in>set df. size_token (log_field r) = Inr (size_name r) \<and>
              size_numeric r =
                (if size_name r = ''10k'' then Num 10000
                 else if size_name r = ''100k'' then Num 100000
                 else if size_name r = ''1m'' then Num 1000000
                 else NaN))"
proof -
  from apply_rows_all2 [OF assms] obtain names where
    names: "apply_rows (\<lambda>m. size_token (log_field m)) rows = Inr names"
    and all2: "list_all2 (\<lambda>m s. size_token (log_field m) = Inr s) rows names"
    by blast
  define df where "df = sort_key (\<lambda>r. (tool r, fkey (size_numeric r)))
                 (map (\<lambda>(m, s). with_size m s) (zip rows names))"
  have ld: "load_data rows = Inr df"
    by (simp add: load_data_def names df_def)
  have len: "length names = length rows"
    using all2 by (simp add: list_all2_lengthD)
  have set_df: "set df = (\<lambda>(m, s). with_size m s) ` set (zip rows names)"
    by (simp add: df_def)
  have zipP: "size_token (log_field m) = Inr s" if "(m, s) \<in> set (zip rows names)" for m s
    using that all2 by (auto simp: list_all2_conv_all_nth set_zip)
  have a: "length df = length rows"
    by (simp add: df_def len)
  have b: "with_size m s \<in> set df" if "m \<in> set rows" "size_token (log_field m) = Inr s" for m s
  proof -
    from that(1) obtain i where i: "i < length rows" "rows ! i = m"
      by (auto simp: in_set_conv_nth)
    then have "(m, names ! i) \<in> set (zip rows names)"
      using len by (auto simp: set_zip)
    moreover from this have "size_token (log_field m) = Inr (names ! i)" by (rule zipP)
    ultimately show ?thesis using that(2) by (force simp: set_df)
  qed
  have c: "size_token (log_field r) = Inr (size_name r) \<and>
              size_numeric r =
                (if size_name r = ''10k'' then Num 10000
                 else if size_name r = ''100k'' then Num 100000
                 else if size_name r = ''1m'' then Num 1000000
                 else NaN)" if "r \<in> set df" for r
  proof -
    from that obtain m s where ms: "(m, s) \<in> set (zip rows names)" "r = with_size m s"
      by (auto simp: set_df)
    then show ?thesis using zipP [OF ms(1)] by (simp add: with_size_def map_size_cases)
  qed
  show ?thesis using ld a b c by blast
qed

theorem load_data_keeps_unmapped_rows_witness:
  "size_token (log_field (hd c4_rows)) = Inr ''5k'' \<and>
   load_data c4_rows = Inr [with_size (hd c4_rows) ''5k''] \<and>
   size_numeric (with_size (hd c4_rows) ''5k'') = NaN"
proof -
  have tok: "size_token (log_field (hd c4_rows)) = Inr ''5k''"
    unfolding c4_rows_def by code_simp
  have h: "\<forall>m\<in>set c4_rows. \<exists>s. size_token (log_field m) = Inr s"
    using tok by (simp add: c4_rows_def)
  from load_data_keeps_unmapped_rows [OF h] obtain df where
    df: "load_data c4_rows = Inr df" "length df = length c4_rows"
      "\<forall>m\<in>set c4_rows. \<forall>s. size_token (log_field m) = Inr s \<longrightarrow> with_size m s \<in> set df"
    by blast
  have "hd c4_rows \<in> set c4_rows"
    by (simp add: c4_rows_def)
  with df(3) tok have mem: "with_size (hd c4_rows) ''5k'' \<in> set df"
    by blast
  have "length df = 1"
    using df(2) by (simp add: c4_rows_def)
  with mem have "df = [with_size (hd c4_rows) ''5k'']"
    by (cases df) auto
  moreover have "size_numeric (with_size (hd c4_rows) ''5k'') = NaN"
    by (simp add: with_size_def map_size_cases)
  ultimately show ?thesis using tok df(1) by simp
qed
subsection \<open>Scaling Analyzer on a zero divisor\<close>

lemma np_div_zero_divisor:
  "is_zero y \<Longrightarrow>
   np_div x y = (if is_nan x \<or> is_zero x then NaN else signed_inf (is_neg x \<noteq> is_neg y))"
  by (cases y; cases x) (simp_all add: np_div_def)

text \<open>
  C5 as stated fails: timber took 0 seconds on the 10k log, and the analyzer raises nothing;
  it prints the entry with the time ratio \<open>inf\<close>, next to the entry of grep.
\<close>

lemma c5_tools: "unique (map tool c5_df) = [''grep'', ''timber'']"
  unfolding c5_df_def g10_def g100_def t10_zero_def t100_def by code_simp

lemma c5_grep_rows: "sort_values size_numeric (filter (\<lambda>r. tool r = ''grep'') c5_df) = [g10, g100]"
  unfolding c5_df_def g10_def g100_def t10_zero_def t100_def by code_simp

lemma c5_timber_rows:
  "sort_values size_numeric (filter (\<lambda>r. tool r = ''timber'') c5_df) = [t10_zero, t100]"
  unfolding c5_df_def g10_def g100_def t10_zero_def t100_def by code_simp

lemma np_div_30_2: "np_div (Num 30) (Num 2) = Num 15"
  by code_simp

lemma np_div_size_10: "np_div (Num 100000) (Num 10000) = Num 10"
  by code_simp

lemma np_div_15_10: "np_div (Num 15) (Num 10) = Num (3 / 2)"
  by code_simp

lemma format_15: "format_f 2 (Num 15) = ''15.00''"
  by code_simp

lemma format_1500: "format_f 3 (Num (3 / 2)) = ''1.500''"
  by code_simp

lemma c5_grep_entry:
  "scaling_row ''grep'' g10 g100 =
     \<lparr>Tool = ''grep'', Size_Change = ''10k '' @ arrow @ '' 100k'',
      Time_Increase = ''15.00x'', Scaling_Factor = ''1.500''\<rparr>"
  by (simp add: scaling_row_def scaling_factor_def time_ratio_def size_ratio_def
      g10_def g100_def np_div_30_2 np_div_size_10 np_div_15_10 format_15 format_1500
      del: format_f.simps)

lemma np_div_9_0: "np_div (Num 9) (Num 0) = PInf"
  by (simp add: np_div_def signed_inf_def)

lemma np_div_inf_10: "np_div PInf (Num 10) = PInf"
  by (simp add: np_div_def signed_inf_def)

lemma c5_timber_entry:
  "scaling_row ''timber'' t10_zero t100 =
     \<lparr>Tool = ''timber'', Size_Change = ''10k '' @ arrow @ '' 100k'',
      Time_Increase = ''infx'', Scaling_Factor = ''inf''\<rparr>"
  by (simp add: scaling_row_def scaling_factor_def time_ratio_def size_ratio_def
      t10_zero_def t100_def np_div_size_10 np_div_9_0 np_div_inf_10)

theorem scaling_zero_time_counterexample:
  "time_seconds t10_zero = Num 0 \<and>
   generate_scaling_analysis c5_df =
     [\<lparr>Tool = ''grep'', Size_Change = ''10k '' @ arrow @ '' 100k'',
       Time_Increase = ''15.00x'', Scaling_Factor = ''1.500''\<rparr>,
      \<lparr>Tool = ''timber'', Size_Change = ''10k '' @ arrow @ '' 100k'',
       Time_Increase = ''infx'', Scaling_Factor = ''inf''\<rparr>]"
  by (simp add: generate_scaling_analysis_def c5_tools tool_scaling_zip c5_grep_rows
      c5_timber_rows c5_grep_entry c5_timber_entry) (simp add: t10_zero_def)

lemma np_div_of_inf_or_nan: "is_nan x \<or> is_inf x \<Longrightarrow> np_div x y \<in> {PInf, NInf, NaN}"
  by (auto simp: np_div_def signed_inf_def)

lemma np_div_by_inf_or_nan: "is_nan y \<or> is_inf y \<Longrightarrow> np_div x y \<in> {Num 0, NegZero, NaN}"
  by (auto simp: np_div_def signed_zero_def)

lemma np_div_zero_divisor_cases: "is_zero y \<Longrightarrow> np_div x y \<in> {PInf, NInf, NaN}"
  by (auto simp: np_div_zero_divisor signed_inf_def)

lemma format_nan: "format_f d NaN = ''nan''"
  by simp

lemma format_zero: "format_f 3 (Num 0) = ''0.000''"
  by code_simp

lemma format_neg_zero: "format_f 3 NegZero = ''-0.000''"
  by code_simp

lemma np_div_15_inf: "np_div (Num 15) PInf = Num 0"
  by (simp add: np_div_def signed_zero_def)

lemma np_div_size_0: "np_div (Num 100000) (Num 0) = PInf"
  by (simp add: np_div_def signed_inf_def)

text \<open>
  C5, amended. A zero \<open>prev.time_seconds\<close> or \<open>prev.size_numeric\<close> raises nothing in the
  Scaling Analyzer, and the entry of the pair is emitted like any other. Over a zero
  \<open>prev.time_seconds\<close> the time ratio is an infinity, or NaN when \<open>cur.time_seconds\<close> is
  zero or NaN: Time Increase reads \<open>infx\<close>, \<open>-infx\<close> or \<open>nanx\<close> and Scaling Factor
  \<open>inf\<close>, \<open>-inf\<close> or \<open>nan\<close>. Over a zero \<open>prev.size_numeric\<close> the size ratio is an
  infinity, or NaN when \<open>cur.size_numeric\<close> is zero or NaN: Scaling Factor reads
  \<open>0.000\<close>, \<open>-0.000\<close> or \<open>nan\<close>, and Time Increase is the time ratio as for any pair.
  The tool still gets one entry per adjacent pair of its sorted rows, and the entries of a
  tool depend on the rows of that tool only.
\<close>

theorem scaling_zero_divisor_gives_inf_or_nan:
  "(is_zero (time_seconds prev) \<longrightarrow>
      time_ratio prev cur =
        (if is_nan (time_seconds cur) \<or> is_zero (time_seconds cur) then NaN
         else signed_inf (is_neg (time_seconds cur) \<noteq> is_neg (time_seconds prev))) \<and>
      Time_Increase (scaling_row t prev cur) \<in> {''infx'', ''-infx'', ''nanx''} \<and>
      Scaling_Factor (scaling_row t prev cur) \<in> {''inf'', ''-inf'', ''nan''}) \<and>
   (is_zero (size_numeric prev) \<longrightarrow>
      size_ratio prev cur =
        (if is_nan (size_numeric cur) \<or> is_zero (size_numeric cur) then NaN
         else signed_inf (is_neg (size_numeric cur) \<noteq> is_neg (size_numeric prev))) \<and>
      Time_Increase (scaling_row t prev cur) = format_f 2 (time_ratio prev cur) @ ''x'' \<and>
      Scaling_Factor (scaling_row t prev cur) \<in> {''0.000'', ''-0.000'', ''nan''}) \<and>
   tool_scaling t df =
     map (\<lambda>(prev, cur). scaling_row t prev cur)
       (zip (sort_values size_numeric (filter (\<lambda>r. tool r = t) df))
            (tl (sort_values size_numeric (filter (\<lambda>r. tool r = t) df)))) \<and>
   length (tool_scaling t df) = length (filter (\<lambda>r. tool r = t) df) - 1 \<and>
   (filter (\<lambda>r. tool r = t) df' = filter (\<lambda>r. tool r = t) df \<longrightarrow>
      tool_scaling t df' = tool_scaling t df)"
proof -
  have a: "is_zero (time_seconds prev) \<longrightarrow>
      time_ratio prev cur =
        (if is_nan (time_seconds cur) \<or> is_zero (time_seconds cur) then NaN
         else signed_inf (is_neg (time_seconds cur) \<noteq> is_neg (time_seconds prev))) \<and>
      Time_Increase (scaling_row t prev cur) \<in> {''infx'', ''-infx'', ''nanx''} \<and>
      Scaling_Factor (scaling_row t prev cur) \<in> {''inf'', ''-inf'', ''nan''}"
  proof
    assume z: "is_zero (time_seconds prev)"
    have 1: "time_ratio prev cur =
        (if is_nan (time_seconds cur) \<or> is_zero (time_seconds cur) then NaN
         else signed_inf (is_neg (time_seconds cur) \<noteq> is_neg (time_seconds prev)))"
      unfolding time_ratio_def using z by (rule np_div_zero_divisor)
    have tr: "time_ratio prev cur \<in> {PInf, NInf, NaN}"
      unfolding time_ratio_def using z by (rule np_div_zero_divisor_cases)
    then have 2: "Time_Increase (scaling_row t prev cur) \<in> {''infx'', ''-infx'', ''nanx''}"
      by (auto simp: scaling_row_def)
    from tr have "is_nan (time_ratio prev cur) \<or> is_inf (time_ratio prev cur)"
      by auto
    then have "scaling_factor prev cur \<in> {PInf, NInf, NaN}"
      unfolding scaling_factor_def by (rule np_div_of_inf_or_nan)
    then have 3: "Scaling_Factor (scaling_row t prev cur) \<in> {''inf'', ''-inf'', ''nan''}"
      by (auto simp: scaling_row_def)
    from 1 2 3 show "time_ratio prev cur =
        (if is_nan (time_seconds cur) \<or> is_zero (time_seconds cur) then NaN
         else signed_inf (is_neg (time_seconds cur) \<noteq> is_neg (time_seconds prev))) \<and>
      Time_Increase (scaling_row t prev cur) \<in> {''infx'', ''-infx'', ''nanx''} \<and>
      Scaling_Factor (scaling_row t prev cur) \<in> {''inf'', ''-inf'', ''nan''}"
      by (intro conjI)
  qed
  have b: "is_zero (size_numeric prev) \<longrightarrow>
      size_ratio prev cur =
        (if is_nan (size_numeric cur) \<or> is_zero (size_numeric cur) then NaN
         else signed_inf (is_neg (size_numeric cur) \<noteq> is_neg (size_numeric prev))) \<and>
      Time_Increase (scaling_row t prev cur) = format_f 2 (time_ratio prev cur) @ ''x'' \<and>
      Scaling_Factor (scaling_row t prev cur) \<in> {''0.000'', ''-0.000'', ''nan''}"
  proof
    assume z: "is_zero (size_numeric prev)"
    have 1: "size_ratio prev cur =
        (if is_nan (size_numeric cur) \<or> is_zero (size_numeric cur) then NaN
         else signed_inf (is_neg (size_numeric cur) \<noteq> is_neg (size_numeric prev)))"
      unfolding size_ratio_def using z by (rule np_div_zero_divisor)
    have 2: "Time_Increase (scaling_row t prev cur) = format_f 2 (time_ratio prev cur) @ ''x''"
      by (simp add: scaling_row_def)
    have "size_ratio prev cur \<in> {PInf, NInf, NaN}"
      unfolding size_ratio_def using z by (rule np_div_zero_divisor_cases)
    then have "is_nan (size_ratio prev cur) \<or> is_inf (size_ratio prev cur)"
      by auto
    then have "scaling_factor prev cur \<in> {Num 0, NegZero, NaN}"
      unfolding scaling_factor_def by (rule np_div_by_inf_or_nan)
    then have 3: "Scaling_Factor (scaling_row t prev cur) \<in> {''0.000'', ''-0.000'', ''nan''}"
      using format_zero format_neg_zero format_nan [of 3]
      by (auto simp: scaling_row_def simp del: format_f.simps)
    from 1 2 3 show "size_ratio prev cur =
        (if is_nan (size_numeric cur) \<or> is_zero (size_numeric cur) then NaN
         else signed_inf (is_neg (size_numeric cur) \<noteq> is_neg (size_numeric prev))) \<and>
      Time_Increase (scaling_row t prev cur) = format_f 2 (time_ratio prev cur) @ ''x'' \<and>
      Scaling_Factor (scaling_row t prev cur) \<in> {''0.000'', ''-0.000'', ''nan''}"
      by (intro conjI)
  qed
  have e: "tool_scaling t df =
     map (\<lambda>(prev, cur). scaling_row t prev cur)
       (zip (sort_values size_numeric (filter (\<lambda>r. tool r = t) df))
            (tl (sort_values size_numeric (filter (\<lambda>r. tool r = t) df))))"
    by (rule tool_scaling_zip)
  have c: "length (tool_scaling t df) = length (filter (\<lambda>r. tool r = t) df) - 1"
    by (simp add: tool_scaling_zip length_sort_values)
  have d: "filter (\<lambda>r. tool r = t) df' = filter (\<lambda>r. tool r = t) df \<longrightarrow>
      tool_scaling t df' = tool_scaling t df"
    by (simp add: tool_scaling_def)
  show ?thesis by (intro conjI a b e c d)
qed

theorem scaling_zero_divisor_gives_inf_or_nan_witness:
  "is_zero (time_seconds t10_zero) \<and>
   time_ratio t10_zero t100 = PInf \<and>
   Time_Increase (scaling_row ''timber'' t10_zero t100) = ''infx'' \<and>
   Scaling_Factor (scaling_row ''timber'' t10_zero t100) = ''inf'' \<and>
   is_zero (size_numeric (g10\<lparr>size_numeric := Num 0\<rparr>)) \<and>
   size_ratio (g10\<lparr>size_numeric := Num 0\<rparr>) g100 = PInf \<and>
   Time_Increase (scaling_row ''grep'' (g10\<lparr>size_numeric := Num 0\<rparr>) g100) = ''15.00x'' \<and>
   Scaling_Factor (scaling_row ''grep'' (g10\<lparr>size_numeric := Num 0\<rparr>) g100) = ''0.000'' \<and>
   tool_scaling ''timber'' c5_df = [scaling_row ''timber'' t10_zero t100] \<and>
   length (tool_scaling ''timber'' c5_df) = 1 \<and>
   filter (\<lambda>r. tool r = ''grep'') (take 2 c5_df) = filter (\<lambda>r. tool r = ''grep'') c5_df \<and>
   tool_scaling ''grep'' (take 2 c5_df) = tool_scaling ''grep'' c5_df"
proof -
  let ?g0 = "g10\<lparr>size_numeric := Num 0\<rparr>"
  note T = scaling_zero_divisor_gives_inf_or_nan [of t10_zero t100 "''timber''" c5_df "take 2 c5_df"]
  note G = scaling_zero_divisor_gives_inf_or_nan [of ?g0 g100 "''grep''" c5_df "take 2 c5_df"]
  have z: "is_zero (time_seconds t10_zero)"
    by (simp add: t10_zero_def)
  have zs: "is_zero (size_numeric ?g0)"
    by simp
  have r: "(if is_nan (time_seconds t100) \<or> is_zero (time_seconds t100) then NaN
         else signed_inf (is_neg (time_seconds t100) \<noteq> is_neg (time_seconds t10_zero))) = PInf"
    by (simp add: t10_zero_def t100_def signed_inf_def)
  have rs: "(if is_nan (size_numeric g100) \<or> is_zero (size_numeric g100) then NaN
         else signed_inf (is_neg (size_numeric g100) \<noteq> is_neg (size_numeric ?g0))) = PInf"
    by (simp add: g100_def signed_inf_def)
  from T z r have 1: "time_ratio t10_zero t100 = PInf"
    by simp
  have 2: "Time_Increase (scaling_row ''timber'' t10_zero t100) = ''infx''"
    by (simp add: c5_timber_entry)
  have 3: "Scaling_Factor (scaling_row ''timber'' t10_zero t100) = ''inf''"
    by (simp add: c5_timber_entry)
  from G zs rs have 4: "size_ratio ?g0 g100 = PInf"
    by simp
  have tg: "time_ratio ?g0 g100 = Num 15"
    by (simp add: time_ratio_def g10_def g100_def np_div_30_2)
  from G zs have "Time_Increase (scaling_row ''grep'' ?g0 g100) = format_f 2 (time_ratio ?g0 g100) @ ''x''"
    by blast
  then have 5: "Time_Increase (scaling_row ''grep'' ?g0 g100) = ''15.00x''"
    by (simp add: tg format_15 del: format_f.simps)
  have 6: "Scaling_Factor (scaling_row ''grep'' ?g0 g100) = ''0.000''"
    by (simp add: scaling_row_def scaling_factor_def tg 4 np_div_15_inf format_zero
        del: format_f.simps)
  from T have 7: "tool_scaling ''timber'' c5_df = [scaling_row ''timber'' t10_zero t100]"
    by (simp add: c5_timber_rows)
  then have 8: "length (tool_scaling ''timber'' c5_df) = 1"
    by simp
  have 9: "filter (\<lambda>r. tool r = ''grep'') (take 2 c5_df) = filter (\<lambda>r. tool r = ''grep'') c5_df"
    by (simp add: c5_df_def g10_def g100_def t10_zero_def t100_def)
  with G have 10: "tool_scaling ''grep'' (take 2 c5_df) = tool_scaling ''grep'' c5_df"
    by blast
  show ?thesis
    by (intro conjI z 1 2 3 zs 4 5 6 7 8 9 10)
qed

subsection \<open>Scaling Analyzer and the order of the rows\<close>

lemma np_div_2_1: "np_div (Num 2) (Num 1) = Num 2"
  by code_simp

lemma np_div_1_2: "np_div (Num 1) (Num 2) = Num (1 / 2)"
  by code_simp

lemma format_200: "format_f 2 (Num 2) = ''2.00''"
  by code_simp

lemma format_050: "format_f 2 (Num (1 / 2)) = ''0.50''"
  by code_simp

lemma np_div_nan: "np_div x NaN = NaN"
  by (simp add: np_div_def)

lemma load_5k_7k: "load_data [m5, m7] = Inr [n5, n7]"
  unfolding m5_def m7_def n5_def n7_def by code_simp

lemma load_7k_5k: "load_data [m7, m5] = Inr [n7, n5]"
  unfolding m5_def m7_def n5_def n7_def by code_simp

lemma unique_timber: "unique [''timber'', ''timber''] = [''timber'']"
  by code_simp

lemma scaling_5k_7k:
  "generate_scaling_analysis [n5, n7] =
     [\<lparr>Tool = ''timber'', Size_Change = ''5k '' @ arrow @ '' 7k'',
       Time_Increase = ''2.00x'', Scaling_Factor = ''nan''\<rparr>]"
  by (simp add: generate_scaling_analysis_def tool_scaling_zip sort_values_def
      scaling_row_def scaling_factor_def time_ratio_def size_ratio_def
      n5_def n7_def unique_timber np_div_2_1 np_div_nan format_200 del: format_f.simps)
    simp

lemma scaling_7k_5k:
  "generate_scaling_analysis [n7, n5] =
     [\<lparr>Tool = ''timber'', Size_Change = ''7k '' @ arrow @ '' 5k'',
       Time_Increase = ''0.50x'', Scaling_Factor = ''nan''\<rparr>]"
  by (simp add: generate_scaling_analysis_def tool_scaling_zip sort_values_def
      scaling_row_def scaling_factor_def time_ratio_def size_ratio_def
      n5_def n7_def unique_timber np_div_1_2 np_div_nan format_050 del: format_f.simps)
    simp

text \<open>
  C10 as stated fails: the two logs of timber carry size labels that are not in the lookup
  table, so both rows have a missing \<open>size_numeric\<close> and the sort leaves them in their
  input order. Swapping the two rows of the input file swaps \<open>prev\<close> and \<open>cur\<close>.
\<close>

theorem scaling_row_order_counterexample:
  "mset [m7, m5] = mset [m5, m7] \<and>
   load_data [m5, m7] = Inr [n5, n7] \<and>
   load_data [m7, m5] = Inr [n7, n5] \<and>
   generate_scaling_analysis [n5, n7] =
     [\<lparr>Tool = ''timber'', Size_Change = ''5k '' @ arrow @ '' 7k'',
       Time_Increase = ''2.00x'', Scaling_Factor = ''nan''\<rparr>] \<and>
   generate_scaling_analysis [n7, n5] =
     [\<lparr>Tool = ''timber'', Size_Change = ''7k '' @ arrow @ '' 5k'',
       Time_Increase = ''0.50x'', Scaling_Factor = ''nan''\<rparr>] \<and>
   generate_scaling_analysis [n5, n7] \<noteq> generate_scaling_analysis [n7, n5]"
  by (simp add: load_5k_7k load_7k_5k scaling_5k_7k scaling_7k_5k add.commute)

text \<open>
  C10, amended. The entries of a tool do not depend on the order of the rows of the table,
  provided no two different rows of that tool have the same \<open>size_numeric\<close> (two missing
  values count as the same): then the sort by \<open>size_numeric\<close> fixes the order of the
  tool's rows.
\<close>

theorem scaling_independent_of_row_order:
  assumes "mset df' = mset df"
    and "inj_on (\<lambda>r. fkey (size_numeric r)) {r \<in> set df. tool r = t}"
  shows "tool_scaling t df' = tool_scaling t df"
proof -
  let ?f = "\<lambda>r. fkey (size_numeric r)"
  let ?xs = "filter (\<lambda>r. tool r = t) df"
  let ?ys = "filter (\<lambda>r. tool r = t) df'"
  have m: "mset ?ys = mset (sort_key ?f ?xs)"
    using assms(1) by simp
  have "set df' = set df"
    using assms(1) by (rule mset_eq_setD)
  then have "set ?ys = {r \<in> set df. tool r = t}"
    by auto
  with assms(2) have i: "inj_on ?f (set ?ys)"
    by simp
  have "sort_key ?f ?ys = sort_key ?f ?xs"
    using m i by (rule sort_key_inj_key_eq) simp
  then show ?thesis
    by (simp add: tool_scaling_def sort_values_def)
qed

theorem scaling_independent_of_row_order_witness:
  "mset (rev w_df) = mset w_df \<and>
   inj_on (\<lambda>r. fkey (size_numeric r)) {r \<in> set w_df. tool r = ''timber''} \<and>
   tool_scaling ''timber'' (rev w_df) = tool_scaling ''timber'' w_df"
proof -
  have a: "mset (rev w_df) = mset w_df"
    by simp
  have "{r \<in> set w_df. tool r = ''timber''} = {w_df ! 1, w_df ! 2}"
    by (auto simp: w_df_def)
  then have b: "inj_on (\<lambda>r. fkey (size_numeric r)) {r \<in> set w_df. tool r = ''timber''}"
    by (simp add: w_df_def)
  from scaling_independent_of_row_order [OF a b] a b show ?thesis
    by simp
qed
subsection \<open>Pivot Aggregator\<close>

lemma pivot_cells:
  assumes "distinct (map (\<lambda>r. (idx r, col r)) df)"
  shows "\<exists>p. pivot idx col v df = Inr p \<and> (\<forall>r\<in>set df. cell p (idx r) (col r) = Some (v r))"
proof -
  define rows where "rows = sort (unique (map idx df))"
  define cols where "cols = sort (unique (map col df))"
  define g where "g i c = (case find (\<lambda>r. idx r = i \<and> col r = c) df of
                              None \<Rightarrow> NaN | Some r \<Rightarrow> v r)" for i c
  define p where "p = \<lparr>index = rows, columns = cols,
                       cells = map (\<lambda>i. map (\<lambda>c. g i c) cols) rows\<rparr>"
  have piv: "pivot idx col v df = Inr p"
    using assms by (simp add: pivot_def p_def rows_def cols_def g_def [abs_def] Let_def)
  have inj: "inj_on (\<lambda>r. (idx r, col r)) (set df)"
    using assms by (simp add: distinct_map)
  have "cell p (idx r) (col r) = Some (v r)" if r: "r \<in> set df" for r
  proof -
    have ir: "idx r \<in> set rows" and cr: "col r \<in> set cols"
      using r by (simp_all add: rows_def cols_def set_unique)
    obtain r' where f: "find (\<lambda>x. idx x = idx r \<and> col x = col r) df = Some r'"
      using r by (cases "find (\<lambda>x. idx x = idx r \<and> col x = col r) df")
        (auto simp: find_None_iff)
    then have "r' \<in> set df" "idx r' = idx r" "col r' = col r"
      by (auto simp: find_Some_iff)
    with inj r have "r' = r"
      by (auto dest: inj_onD)
    with f have gv: "g (idx r) (col r) = v r"
      by (simp add: g_def)
    have "map_of (zip rows (map (\<lambda>i. map (\<lambda>c. g i c) cols) rows)) (idx r)
            = Some (map (\<lambda>c. g (idx r) c) cols)"
      using ir by (simp add: map_of_zip_map)
    moreover have "map_of (zip cols (map (\<lambda>c. g (idx r) c) cols)) (col r) = Some (g (idx r) (col r))"
      using cr by (simp add: map_of_zip_map)
    ultimately show ?thesis
      by (simp add: cell_def p_def gv)
  qed
  with piv show ?thesis by blast
qed

text \<open>
  C8. When two records of the table share the tool and the size label, both pivots of the
  analysis fail with ValueError (\<open>Index contains duplicate entries\<close>), the error of the
  specification's DuplicateKeyError. When no two records share the key, the pivot succeeds
  and the cell of every record holds that record's value: no cell is overwritten.
\<close>

theorem pivot_duplicate_key_fails:
  "(i < j \<and> j < length df \<and> tool (df ! i) = tool (df ! j) \<and>
    size_name (df ! i) = size_name (df ! j)
    \<longrightarrow> generate_time_comparison df = Inl ValueError \<and>
        generate_memory_comparison df = Inl ValueError) \<and>
   (distinct (map (\<lambda>r. (size_name r, tool r)) df)
    \<longrightarrow> (\<exists>p. pivot size_name tool time_seconds df = Inr p \<and>
             (\<forall>r\<in>set df. cell p (size_name r) (tool r) = Some (time_seconds r))))"
proof (intro conjI impI)
  assume h: "i < j \<and> j < length df \<and> tool (df ! i) = tool (df ! j) \<and>
    size_name (df ! i) = size_name (df ! j)"
  let ?ks = "map (\<lambda>r. (size_name r, tool r)) df"
  from h have "i < length ?ks" "j < length ?ks" "i \<noteq> j" "?ks ! i = ?ks ! j"
    by auto
  then have "\<not> distinct ?ks"
    using nth_eq_iff_index_eq by blast
  then show "generate_time_comparison df = Inl ValueError"
    and "generate_memory_comparison df = Inl ValueError"
    by (simp_all add: generate_time_comparison_def generate_memory_comparison_def pivot_def)
next
  assume "distinct (map (\<lambda>r. (size_name r, tool r)) df)"
  then show "\<exists>p. pivot size_name tool time_seconds df = Inr p \<and>
             (\<forall>r\<in>set df. cell p (size_name r) (tool r) = Some (time_seconds r))"
    by (rule pivot_cells)
qed

theorem pivot_duplicate_key_fails_witness:
  "(0::nat) < 2 \<and> 2 < length dup_df \<and> tool (dup_df ! 0) = tool (dup_df ! 2) \<and>
   size_name (dup_df ! 0) = size_name (dup_df ! 2) \<and>
   generate_time_comparison dup_df = Inl ValueError \<and>
   generate_memory_comparison dup_df = Inl ValueError \<and>
   distinct (map (\<lambda>r. (size_name r, tool r)) [g10, t10_zero]) \<and>
   (\<exists>p. pivot size_name tool time_seconds [g10, t10_zero] = Inr p \<and>
        cell p ''10k'' ''grep'' = Some (Num 2))"
proof -
  have h: "(0::nat) < 2 \<and> 2 < length dup_df \<and> tool (dup_df ! 0) = tool (dup_df ! 2) \<and>
      size_name (dup_df ! 0) = size_name (dup_df ! 2)"
    by (simp add: dup_df_def)
  have d: "distinct (map (\<lambda>r. (size_name r, tool r)) [g10, t10_zero])"
    by (simp add: g10_def t10_zero_def)
  from pivot_duplicate_key_fails [of 0 2 dup_df] h
  have a: "generate_time_comparison dup_df = Inl ValueError \<and>
      generate_memory_comparison dup_df = Inl ValueError"
    by blast
  from pivot_duplicate_key_fails [of 0 0 "[g10, t10_zero]"] d
  obtain p where p: "pivot size_name tool time_seconds [g10, t10_zero] = Inr p"
    "\<forall>r\<in>set [g10, t10_zero]. cell p (size_name r) (tool r) = Some (time_seconds r)"
    by blast
  from p(2) have "cell p (size_name g10) (tool g10) = Some (time_seconds g10)"
    by simp
  then have "cell p ''10k'' ''grep'' = Some (Num 2)"
    by (simp add: g10_def)
  with p(1) h a d show ?thesis by blast
qed
lemma index_generate_time_comparison:
  "generate_time_comparison df = Inr p \<Longrightarrow> index p = size_order"
  by (auto simp: generate_time_comparison_def reindex_def split: sum.splits)

lemma index_generate_memory_comparison:
  "generate_memory_comparison df = Inr p \<Longrightarrow> index p = size_order"
  by (auto simp: generate_memory_comparison_def reindex_def split: sum.splits)

lemma index_time_df:
  "time_df df = Inr p \<Longrightarrow> index p = filter (\<lambda>s. s \<in> size_tok ` set df) size_order"
  by (auto simp: time_df_def reindex_def pivot_def Let_def set_unique
      split: sum.splits if_splits intro!: filter_cong)

text \<open>
  C6 fails on the analysis script. The table \<open>w_df\<close> has no measurement in the bucket
  \<open>1m\<close> (and none of grep at \<open>100k\<close>); both pivots of \<open>analyze_results.py\<close> keep
  the row \<open>1m\<close>, filled with NaN, where the pivot of \<open>generate_charts.py\<close> on the same
  measurements leaves the absent bucket out.
\<close>

theorem pivot_absent_bucket_row_of_nan:
  "generate_time_comparison w_df =
     Inr \<lparr>index = [''10k'', ''100k'', ''1m''], columns = [''grep'', ''timber''],
          cells = [[Num 2, Num 1], [NaN, Num 9], [NaN, NaN]]\<rparr> \<and>
   generate_memory_comparison w_df =
     Inr \<lparr>index = [''10k'', ''100k'', ''1m''], columns = [''grep'', ''timber''],
          cells = [[Num 80, Num 50], [NaN, Num 90], [NaN, NaN]]\<rparr> \<and>
   time_df w_chart =
     Inr \<lparr>index = [''10k'', ''100k''], columns = [''grep'', ''timber''],
          cells = [[Num 2, Num 1], [NaN, Num 9]]\<rparr>"
  unfolding w_df_def w_chart_def by code_simp
subsection \<open>The headerless loader\<close>

lemma split_on_not_Nil: "split_on c s \<noteq> []"
  by (induction s) (auto split: list.splits)

lemma length_split_on: "length (split_on c s) = Suc (length (filter (\<lambda>x. x = c) s))"
  by (induction s) (auto split: list.splits simp: split_on_not_Nil)

lemma size_token_cases:
  "(\<exists>t. size_token l = Inr t) \<or> size_token l = Inl IndexError \<or> size_token l = Inl AttributeError"
  by (auto simp: size_token_def py_index_def split_on_not_Nil split: option.splits)

lemma size_token_ok_iff:
  "(\<exists>t. size_token l = Inr t) \<longleftrightarrow> (\<exists>s. l = Some s \<and> CHR ''_'' \<in> set s)"
proof -
  have "1 < length (split_on CHR ''_'' s) \<longleftrightarrow> CHR ''_'' \<in> set s" for s
    by (simp add: length_split_on filter_empty_conv)
  then show ?thesis
    by (cases l) (auto simp: size_token_def py_index_def split_on_not_Nil)
qed

lemma extract_size_total: "\<exists>t. extract_size l = Inr t"
  using size_token_cases [of l] by (auto simp: extract_size_def)

lemma extract_size_Some_iff: "extract_size l = Inr (Some t) \<longleftrightarrow> size_token l = Inr t"
  using size_token_cases [of l] by (auto simp: extract_size_def)

lemma dropna_size_zip:
  assumes "list_all2 (\<lambda>r t. extract_size (log_field r) = Inr t) df sizes"
  shows "map (\<lambda>r. (tool r, log_field r, time_seconds r)) (dropna_size (zip df sizes))
           = map (\<lambda>r. (tool r, log_field r, time_seconds r))
               (filter (\<lambda>r. \<exists>t. size_token (log_field r) = Inr t) df)
         \<and> (\<forall>r\<in>set (dropna_size (zip df sizes)). size_token (log_field r) = Inr (size_tok r))"
  using assms
proof (induction df sizes rule: list_all2_induct)
  case Nil
  then show ?case by simp
next
  case (Cons r df t sizes)
  show ?case
  proof (cases t)
    case None
    with Cons.hyps(1) have "\<not> (\<exists>t. size_token (log_field r) = Inr t)"
      using extract_size_Some_iff [of "log_field r"] by auto
    with None Cons.IH show ?thesis by simp
  next
    case (Some s)
    with Cons.hyps(1) have "size_token (log_field r) = Inr s"
      by (simp add: extract_size_Some_iff)
    with Some Cons.IH show ?thesis by simp
  qed
qed

lemma add_size_column_keeps_token_rows:
  "\<exists>out. add_size_column df = Inr out \<and>
         map (\<lambda>r. (tool r, log_field r, time_seconds r)) out =
           map (\<lambda>r. (tool r, log_field r, time_seconds r))
             (filter (\<lambda>r. \<exists>t. size_token (log_field r) = Inr t) df) \<and>
         (\<forall>r\<in>set out. size_token (log_field r) = Inr (size_tok r))"
proof -
  from apply_rows_all2 [of df "\<lambda>r. extract_size (log_field r)"] extract_size_total
  obtain sizes where
    sizes: "apply_rows (\<lambda>r. extract_size (log_field r)) df = Inr sizes"
    and all2: "list_all2 (\<lambda>r t. extract_size (log_field r) = Inr t) df sizes"
    by blast
  have "add_size_column df = Inr (dropna_size (zip df sizes))"
    by (simp add: add_size_column_def sizes)
  with dropna_size_zip [OF all2] show ?thesis
    by simp
qed

text \<open>
  C9. The script reads the file with the comment \<open>Read CSV, skip invalid rows\<close>, but the
  row of a line with two fields only is not skipped: it keeps its size token, stays in the
  frame with a missing time and becomes a NaN cell of the pivot table. A row whose log
  yields no size token is dropped, and nothing fails.
\<close>

theorem lenient_short_row_is_kept:
  "add_size_column short_line_df =
     Inr [\<lparr>tool = ''timber'', log_field = Some ''bench_10k.json'',
           time_seconds = Num (3 / 2), size_tok = ''10k''\<rparr>,
          \<lparr>tool = ''grep'', log_field = Some ''bench_10k.json'',
           time_seconds = NaN, size_tok = ''10k''\<rparr>] \<and>
   time_df [\<lparr>tool = ''timber'', log_field = Some ''bench_10k.json'',
             time_seconds = Num (3 / 2), size_tok = ''10k''\<rparr>,
            \<lparr>tool = ''grep'', log_field = Some ''bench_10k.json'',
             time_seconds = NaN, size_tok = ''10k''\<rparr>] =
     Inr \<lparr>index = [''10k''], columns = [''grep'', ''timber''], cells = [[NaN, Num (3 / 2)]]\<rparr>"
proof -
  have a: "add_size_column short_line_df =
     Inr [\<lparr>tool = ''timber'', log_field = Some ''bench_10k.json'',
           time_seconds = Num (3 / 2), size_tok = ''10k''\<rparr>,
          \<lparr>tool = ''grep'', log_field = Some ''bench_10k.json'',
           time_seconds = NaN, size_tok = ''10k''\<rparr>]"
    unfolding short_line_df_def by code_simp
  have b: "time_df [\<lparr>tool = ''timber'', log_field = Some ''bench_10k.json'',
             time_seconds = Num (3 / 2), size_tok = ''10k''\<rparr>,
            \<lparr>tool = ''grep'', log_field = Some ''bench_10k.json'',
             time_seconds = NaN, size_tok = ''10k''\<rparr>] =
     Inr \<lparr>index = [''10k''], columns = [''grep'', ''timber''], cells = [[NaN, Num (3 / 2)]]\<rparr>"
    by code_simp
  show ?thesis by (intro conjI a b)
qed

subsection \<open>Ranking Engine\<close>

lemma sorted_three_way:
  fixes s :: "'a :: linorder list"
  assumes "sorted s"
  shows "s = filter (\<lambda>y. y < k) s @ filter (\<lambda>y. y = k) s @ filter (\<lambda>y. k < y) s"
  using assms
proof (induction s)
  case Nil
  then show ?case by simp
next
  case (Cons x s)
  then have le: "\<forall>y\<in>set s. x \<le> y" and IH: "s = filter (\<lambda>y. y < k) s @ filter (\<lambda>y. y = k) s @ filter (\<lambda>y. k < y) s"
    by simp_all
  consider "x < k" | "x = k" | "k < x" by (metis less_linear)
  then show ?case
  proof cases
    case 1
    then show ?thesis using IH by auto
  next
    case 2
    then have "filter (\<lambda>y. y < k) s = []"
      using le by (auto simp: filter_empty_conv)
    then show ?thesis using 2 IH by auto
  next
    case 3
    then have "filter (\<lambda>y. y < k) s = []" "filter (\<lambda>y. y = k) s = []"
      using le by (auto simp: filter_empty_conv)
    then show ?thesis using 3 IH by auto
  qed
qed

lemma positions_sorted:
  fixes s :: "'a :: linorder list"
  assumes "sorted s"
  shows "positions s k =
           [length (filter (\<lambda>y. y < k) s) + 1..<
            length (filter (\<lambda>y. y < k) s) + length (filter (\<lambda>y. y = k) s) + 1]"
proof -
  define A where "A = filter (\<lambda>y. y < k) s"
  define B where "B = filter (\<lambda>y. y = k) s"
  define C where "C = filter (\<lambda>y. k < y) s"
  have s: "s = A @ B @ C"
    unfolding A_def B_def C_def using assms by (rule sorted_three_way)
  have inA: "\<And>y. y \<in> set A \<Longrightarrow> y < k" and inB: "\<And>y. y \<in> set B \<Longrightarrow> y = k"
    and inC: "\<And>y. y \<in> set C \<Longrightarrow> k < y"
    by (auto simp: A_def B_def C_def)
  have iff: "(A @ B @ C) ! i = k \<longleftrightarrow> length A \<le> i \<and> i < length A + length B"
    if "i < length (A @ B @ C)" for i
  proof -
    consider "i < length A" | "length A \<le> i" "i < length A + length B"
      | "length A + length B \<le> i"
      by linarith
    then show ?thesis
    proof cases
      case 1
      then have "(A @ B @ C) ! i = A ! i" "A ! i \<in> set A"
        by (simp_all add: nth_append)
      with inA [of "A ! i"] 1 show ?thesis by auto
    next
      case 2
      then have "i - length A < length B"
        by linarith
      with 2 have "(A @ B @ C) ! i = B ! (i - length A)" "B ! (i - length A) \<in> set B"
        by (simp_all add: nth_append)
      with inB [of "B ! (i - length A)"] 2 show ?thesis by auto
    next
      case 3
      with that have "i - length A - length B < length C" "\<not> i < length A"
        "\<not> i - length A < length B"
        by auto
      then have "(A @ B @ C) ! i = C ! (i - length A - length B)"
        "C ! (i - length A - length B) \<in> set C"
        by (simp_all add: nth_append)
      with inC [of "C ! (i - length A - length B)"] 3 show ?thesis by auto
    qed
  qed
  let ?xs = "filter (\<lambda>i. (A @ B @ C) ! i = k) [0..<length (A @ B @ C)]"
  have "set ?xs = set [length A..<length A + length B]"
  proof (rule set_eqI)
    fix i
    show "i \<in> set ?xs \<longleftrightarrow> i \<in> set [length A..<length A + length B]"
      using iff [of i] by (cases "i < length (A @ B @ C)") simp_all
  qed
  moreover have "sorted ?xs" "distinct ?xs"
    by (simp_all add: sorted_wrt_filter)
  ultimately have "?xs = [length A..<length A + length B]"
    by (intro sorted_distinct_set_unique) simp_all
  then have "positions (A @ B @ C) k = map Suc [length A..<length A + length B]"
    by (simp add: positions_def)
  then have "positions s k = map Suc [length A..<length A + length B]"
    using s by simp
  then show ?thesis
    by (simp add: A_def B_def map_Suc_upt)
qed

lemma length_filter_sort:
  fixes zs :: "'a :: linorder list"
  shows "length (filter P (sort zs)) = length (filter P zs)"
proof -
  have "mset (filter P (sort zs)) = mset (filter P zs)"
    by simp
  then show ?thesis by (rule mset_eq_length)
qed

lemma rank_eq_tie_averaged: "rank xs = map (tie_averaged_rank xs) xs"
  unfolding rank_def Let_def
proof (rule map_cong [OF refl])
  fix x
  let ?s = "sort (map fkey (filter (\<lambda>x. \<not> is_nan x) xs))"
  show "(if is_nan x then NaN
         else Num (of_nat (sum_list (positions ?s (fkey x)))
                   / of_nat (length (positions ?s (fkey x)))))
        = tie_averaged_rank xs x"
  proof (cases "is_nan x")
    case True
    then show ?thesis by (simp add: tie_averaged_rank_def)
  next
    case False
    define L where "L = length (filter (\<lambda>y. flt y x) xs)"
    define k where "k = length (filter (\<lambda>y. feq y x) xs)"
    have "length (filter (\<lambda>y. y < fkey x) ?s) = L"
      using False by (simp add: length_filter_sort filter_map o_def flt_def conj_commute L_def)
    moreover have "length (filter (\<lambda>y. y = fkey x) ?s) = k"
      using False by (simp add: length_filter_sort filter_map o_def feq_def conj_commute k_def)
    ultimately have ps: "positions ?s (fkey x) = [L + 1..<L + k + 1]"
      using positions_sorted [of ?s "fkey x"] by simp
    have len: "length [L + 1..<L + k + 1] = k"
      by simp
    have "tie_averaged_rank xs x = Num (of_nat (sum_list [L + 1..<L + k + 1]) / of_nat k)"
      using False by (simp only: tie_averaged_rank_def Let_def L_def k_def if_False)
    with False show ?thesis
      by (simp only: ps len if_False)
  qed
qed

lemma length_rank: "length (rank xs) = length xs"
  by (simp add: rank_def)

lemma length_add_ranks: "length (add_ranks size_df) = length size_df"
  by (simp add: add_ranks_def length_rank)

lemma add_ranks_nth:
  assumes "i < length size_df"
  shows "tool (add_ranks size_df ! i) = tool (size_df ! i)"
    and "time_rank (add_ranks size_df ! i) = rank (map time_seconds size_df) ! i"
    and "memory_rank (add_ranks size_df ! i) = rank (map memory_mb size_df) ! i"
    and "combined_score (add_ranks size_df ! i) =
           np_div (np_add (time_rank (add_ranks size_df ! i))
                          (memory_rank (add_ranks size_df ! i))) (Num 2)"
  using assms by (simp_all add: add_ranks_def length_rank)

lemma mean_1_3: "Num (of_nat (sum_list [0 + 1..<0 + 3 + 1]) / of_nat 3) = Num 2"
  by code_simp

lemma mean_1_1: "Num (of_nat (sum_list [0 + 1..<0 + 1 + 1]) / of_nat 1) = Num 1"
  by code_simp

lemma round64_3: "round64 3 = Num 3"
  by code_simp

lemma np_div_3_2: "np_div (Num 3) (Num 2) = Num (3 / 2)"
  by code_simp

text \<open>
  C2. In every size bucket, the time rank and the memory rank of a tool are the
  tie-averaged ranks of its time and of its memory among the tools of the bucket, ascending
  and 1-based: with \<open>L\<close> smaller values and \<open>k\<close> equal ones, the mean of the positions
  \<open>L + 1, \<dots>, L + k\<close> (a missing value has no rank). The combined score is
  \<open>(time_rank + memory_rank) / 2\<close>, and the output rows are the rows so ranked. Three tools
  with the same time in a bucket of three all get the time rank 2.0.
\<close>

theorem ranks_are_tie_averaged:
  "mset (rank_size size_df) = mset (map result_row (add_ranks size_df)) \<and>
   length (add_ranks size_df) = length size_df \<and>
   (i < length size_df \<longrightarrow>
      tool (add_ranks size_df ! i) = tool (size_df ! i) \<and>
      time_rank (add_ranks size_df ! i) =
        tie_averaged_rank (map time_seconds size_df) (time_seconds (size_df ! i)) \<and>
      memory_rank (add_ranks size_df ! i) =
        tie_averaged_rank (map memory_mb size_df) (memory_mb (size_df ! i)) \<and>
      combined_score (add_ranks size_df ! i) =
        np_div (np_add (time_rank (add_ranks size_df ! i))
                       (memory_rank (add_ranks size_df ! i))) (Num 2)) \<and>
   (i < length size_df \<and> length size_df = 3 \<and>
    (\<forall>r\<in>set size_df. feq (time_seconds r) (time_seconds (size_df ! i)))
    \<longrightarrow> time_rank (add_ranks size_df ! i) = Num 2)"
proof -
  have a: "mset (rank_size size_df) = mset (map result_row (add_ranks size_df))"
    by (simp add: rank_size_def sort_values_def)
  have b: "length (add_ranks size_df) = length size_df"
    by (rule length_add_ranks)
  have tr: "time_rank (add_ranks size_df ! i) =
        tie_averaged_rank (map time_seconds size_df) (time_seconds (size_df ! i))"
    if "i < length size_df"
    using that by (simp add: add_ranks_nth rank_eq_tie_averaged)
  have mr: "memory_rank (add_ranks size_df ! i) =
        tie_averaged_rank (map memory_mb size_df) (memory_mb (size_df ! i))"
    if "i < length size_df"
    using that by (simp add: add_ranks_nth rank_eq_tie_averaged)
  have c: "i < length size_df \<longrightarrow>
      tool (add_ranks size_df ! i) = tool (size_df ! i) \<and>
      time_rank (add_ranks size_df ! i) =
        tie_averaged_rank (map time_seconds size_df) (time_seconds (size_df ! i)) \<and>
      memory_rank (add_ranks size_df ! i) =
        tie_averaged_rank (map memory_mb size_df) (memory_mb (size_df ! i)) \<and>
      combined_score (add_ranks size_df ! i) =
        np_div (np_add (time_rank (add_ranks size_df ! i))
                       (memory_rank (add_ranks size_df ! i))) (Num 2)"
    using tr mr add_ranks_nth(1) [of i size_df] add_ranks_nth(4) [of i size_df] by simp
  have d: "time_rank (add_ranks size_df ! i) = Num 2"
    if h: "i < length size_df \<and> length size_df = 3 \<and>
      (\<forall>r\<in>set size_df. feq (time_seconds r) (time_seconds (size_df ! i)))"
  proof -
    let ?x = "time_seconds (size_df ! i)"
    let ?col = "map time_seconds size_df"
    from h have i: "i < length size_df" and n: "length size_df = 3"
      and all: "\<forall>r\<in>set size_df. feq (time_seconds r) ?x"
      by blast+
    from i have "size_df ! i \<in> set size_df"
      by (rule nth_mem)
    with all have "feq ?x ?x"
      by (rule bspec)
    then have nn: "\<not> is_nan ?x"
      by (simp add: feq_def)
    have "\<forall>y\<in>set ?col. feq y ?x"
      using all by simp
    then have eq: "filter (\<lambda>y. feq y ?x) ?col = ?col"
      by (rule filter_True)
    have "\<forall>y\<in>set ?col. \<not> flt y ?x"
      using all by (simp add: feq_def flt_def)
    then have lt: "filter (\<lambda>y. flt y ?x) ?col = []"
      by (rule filter_False)
    have k3: "length (filter (\<lambda>y. feq y ?x) ?col) = 3"
      by (simp only: eq length_map n)
    have L0: "length (filter (\<lambda>y. flt y ?x) ?col) = 0"
      by (simp only: lt list.size)
    have "tie_averaged_rank ?col ?x = Num (of_nat (sum_list [0 + 1..<0 + 3 + 1]) / of_nat 3)"
      using nn by (simp only: tie_averaged_rank_def Let_def k3 L0 if_False)
    then have "tie_averaged_rank ?col ?x = Num 2"
      by (simp only: mean_1_3)
    with tr h show ?thesis by simp
  qed
  then have dd: "i < length size_df \<and> length size_df = 3 \<and>
      (\<forall>r\<in>set size_df. feq (time_seconds r) (time_seconds (size_df ! i)))
      \<longrightarrow> time_rank (add_ranks size_df ! i) = Num 2"
    by (rule impI)
  show ?thesis
    by (intro conjI a b c dd)
qed

theorem ranks_are_tie_averaged_witness:
  "(0::nat) < length [grep10, awk10, sed10] \<and> length [grep10, awk10, sed10] = 3 \<and>
   feq (time_seconds grep10) (time_seconds grep10) \<and>
   feq (time_seconds awk10) (time_seconds grep10) \<and>
   feq (time_seconds sed10) (time_seconds grep10) \<and>
   time_rank (add_ranks [grep10, awk10, sed10] ! 0) = Num 2 \<and>
   memory_rank (add_ranks [grep10, awk10, sed10] ! 0) = Num 1 \<and>
   combined_score (add_ranks [grep10, awk10, sed10] ! 0) = Num (3 / 2)"
proof -
  let ?df = "[grep10, awk10, sed10]"
  have f: "feq (time_seconds grep10) (time_seconds grep10)"
    "feq (time_seconds awk10) (time_seconds grep10)"
    "feq (time_seconds sed10) (time_seconds grep10)"
    by (simp_all add: feq_def grep10_def awk10_def sed10_def)
  then have h: "0 < length ?df \<and> length ?df = 3 \<and>
      (\<forall>r\<in>set ?df. feq (time_seconds r) (time_seconds (?df ! 0)))"
    by simp
  note t = ranks_are_tie_averaged [of ?df 0]
  from t h have tr: "time_rank (add_ranks ?df ! 0) = Num 2"
    by blast
  from t have m0: "memory_rank (add_ranks ?df ! 0) =
      tie_averaged_rank (map memory_mb ?df) (memory_mb (?df ! 0))"
    and c0: "combined_score (add_ranks ?df ! 0) =
      np_div (np_add (time_rank (add_ranks ?df ! 0)) (memory_rank (add_ranks ?df ! 0))) (Num 2)"
    by simp_all
  have "\<not> is_nan (memory_mb (?df ! 0))"
    "length (filter (\<lambda>y. flt y (memory_mb (?df ! 0))) (map memory_mb ?df)) = 0"
    "length (filter (\<lambda>y. feq y (memory_mb (?df ! 0))) (map memory_mb ?df)) = 1"
    by (simp_all add: flt_def feq_def grep10_def awk10_def sed10_def)
  then have "tie_averaged_rank (map memory_mb ?df) (memory_mb (?df ! 0))
      = Num (of_nat (sum_list [0 + 1..<0 + 1 + 1]) / of_nat 1)"
    by (simp only: tie_averaged_rank_def Let_def if_False)
  then have "tie_averaged_rank (map memory_mb ?df) (memory_mb (?df ! 0)) = Num 1"
    by (simp only: mean_1_1)
  with m0 have mr: "memory_rank (add_ranks ?df ! 0) = Num 1"
    by simp
  have "np_div (np_add (Num 2) (Num 1)) (Num 2) = Num (3 / 2)"
    by (simp add: np_add_def round64_3 np_div_3_2)
  with c0 tr mr have "combined_score (add_ranks ?df ! 0) = Num (3 / 2)"
    by simp
  with f tr mr show ?thesis by simp
qed

subsection \<open>Order of the ranking rows\<close>



















subsection \<open>Comparative Ratio Engine\<close>

lemma size_comparison_entries:
  "size_comparison sz df =
     (case filter (\<lambda>r. size_name r = sz \<and> tool r = ''timber'') df of
        [] \<Rightarrow> []
      | timber # _ \<Rightarrow>
          map (\<lambda>row. \<lparr>File_Size = sz, Compared_Tool = tool row,
                       Time_Ratio = np_div (time_seconds timber) (time_seconds row),
                       Memory_Ratio = np_div (memory_mb timber) (memory_mb row),
                       Timber_Time = time_seconds timber, Tool_Time = time_seconds row,
                       Timber_Memory = memory_mb timber, Tool_Memory = memory_mb row\<rparr>)
            (filter (\<lambda>row. size_name row = sz \<and> tool row \<noteq> ''timber'') df))"
proof -
  have 1: "filter (\<lambda>r. tool r = ''timber'') (filter (\<lambda>r. size_name r = sz) df) =
           filter (\<lambda>r. size_name r = sz \<and> tool r = ''timber'') df"
    by (simp add: conj_commute)
  have 2: "filter (\<lambda>r. tool r \<noteq> ''timber'') (filter (\<lambda>r. size_name r = sz) df) =
           filter (\<lambda>r. size_name r = sz \<and> tool r \<noteq> ''timber'') df"
    by (simp add: conj_commute)
  show ?thesis
    unfolding size_comparison_def Let_def 1 2
    by (cases "filter (\<lambda>r. size_name r = sz \<and> tool r = ''timber'') df") simp_all
qed

lemma time_comparison_slower:
  "flt x (Num 1) \<Longrightarrow> \<not> is_zero x \<Longrightarrow>
   time_comparison x = Inr (''Timber is '' @ format_f 2 (np_div (Num 1) x) @ ''x slower'')"
  by (simp add: time_comparison_def py_div_def)

lemma time_comparison_faster:
  "\<not> flt x (Num 1) \<Longrightarrow> time_comparison x = Inr (''Timber is '' @ format_f 2 x @ ''x faster'')"
  by (simp add: time_comparison_def)

lemma time_comparison_zero: "is_zero x \<Longrightarrow> time_comparison x = Inl ZeroDivisionError"
  by (cases x) (simp_all add: time_comparison_def py_div_def flt_def)

lemma time_comparison_half: "time_comparison (Num (1 / 2)) = Inr ''Timber is 2.00x slower''"
  by code_simp

lemma time_comparison_two: "time_comparison (Num 2) = Inr ''Timber is 2.00x faster''"
  by code_simp

lemma np_div_0_2: "np_div (Num 0) (Num 2) = Num 0"
  by (simp add: np_div_def signed_zero_def)

lemma np_div_50_80: "np_div (Num 50) (Num 80) = Num (5 / 8)"
  by code_simp

lemma c3_sizes: "unique [size_name g10, size_name t10_zero] = [''10k'']"
  unfolding g10_def t10_zero_def by code_simp

lemma c3_10k:
  "size_comparison ''10k'' [g10, t10_zero] =
     [\<lparr>File_Size = ''10k'', Compared_Tool = ''grep'', Time_Ratio = Num 0,
       Memory_Ratio = Num (5 / 8), Timber_Time = Num 0, Tool_Time = Num 2,
       Timber_Memory = Num 50, Tool_Memory = Num 80\<rparr>]"
  by (simp add: size_comparison_entries g10_def t10_zero_def np_div_0_2 np_div_50_80)

lemma c3_data:
  "comparative_data [g10, t10_zero] =
     [\<lparr>File_Size = ''10k'', Compared_Tool = ''grep'', Time_Ratio = Num 0,
       Memory_Ratio = Num (5 / 8), Timber_Time = Num 0, Tool_Time = Num 2,
       Timber_Memory = Num 50, Tool_Memory = Num 80\<rparr>]"
  by (simp add: comparative_data_def c3_sizes c3_10k)

text \<open>
  C3. The entries and the two ratios are as stated, and so are the phrases on a ratio that
  is not zero: 0.5 reads \<open>Timber is 2.00x slower\<close>. On a ratio of zero the phrase has no
  value: with a timber time of 0 seconds the time ratio of grep is 0, below 1, and the
  analysis ends in a ZeroDivisionError with no phrase for any tool.
\<close>

theorem comparative_zero_ratio_raises:
  "comparative_data [g10, t10_zero] =
     [\<lparr>File_Size = ''10k'', Compared_Tool = ''grep'', Time_Ratio = Num 0,
       Memory_Ratio = Num (5 / 8), Timber_Time = Num 0, Tool_Time = Num 2,
       Timber_Memory = Num 50, Tool_Memory = Num 80\<rparr>] \<and>
   flt (Num 0) (Num 1) \<and>
   time_comparison (Num 0) = Inl ZeroDivisionError \<and>
   generate_comparative_analysis [g10, t10_zero] = Inl ZeroDivisionError \<and>
   time_comparison (Num (1 / 2)) = Inr ''Timber is 2.00x slower''"
proof -
  have a: "flt (Num 0) (Num 1)"
    by code_simp
  have b: "time_comparison (Num 0) = Inl ZeroDivisionError"
    by (simp add: time_comparison_zero)
  have c: "generate_comparative_analysis [g10, t10_zero] = Inl ZeroDivisionError"
    by (simp add: generate_comparative_analysis_def c3_data b)
  show ?thesis
    by (intro conjI c3_data a b c time_comparison_half)
qed

end
